theory Spec2Isabelle
  imports Main "HOL-Library.Word" "HOL-Library.Code_Target_Numeral"
begin

unbundle bit_operations_syntax

section \<open>Data model of the state manager\<close>

text \<open>
  The Go package \<^verbatim>\<open>statemanager\<close> adapts a Fabric chaincode stub to the state interface
  of the Burrow EVM. The model below follows \<^verbatim>\<open>statemanager.go\<close> function by function.
  Go objects that are shared by reference (the two cache maps, the \<^verbatim>\<open>stateManager\<close>
  structs themselves) live in an explicit store, so that aliasing created by
  \<^verbatim>\<open>NewCache\<close> is visible in the model.
\<close>

type_synonym bytes = "8 word list"
type_synonym uint64 = "64 word"
type_synonym Address = "160 word"   \<comment> \<open>\<^verbatim>\<open>crypto.Address\<close>, a \<^verbatim>\<open>[20]byte\<close>\<close>
type_synonym Word256 = "256 word"   \<comment> \<open>\<^verbatim>\<open>binary.Word256\<close>, a \<^verbatim>\<open>[32]byte\<close>, big endian\<close>
type_synonym PermFlag = "64 word"   \<comment> \<open>\<^verbatim>\<open>permission.PermFlag\<close>, a \<^verbatim>\<open>uint64\<close>\<close>
type_synonym ref = nat              \<comment> \<open>address of a Go object in the store\<close>

subsection \<open>Accounts and permissions (types of the Burrow library)\<close>

record BasePermissions =
  Perms :: PermFlag
  SetBit :: PermFlag

record AccountPermissions =
  Base :: BasePermissions
  Roles :: "string list"

record crypto_PublicKey =
  CurveType :: "32 word"
  KeyBytes :: bytes

record Account =
  Address :: Address
  PublicKey :: crypto_PublicKey
  Sequence :: uint64
  Balance :: uint64
  Code :: bytes
  Permissions :: AccountPermissions

text \<open>The zero value of a Go struct: what \<^verbatim>\<open>acm.Account{}\<close> and the omitted fields of a
  composite literal denote. A nil slice and an empty slice are both \<open>[]\<close>: the code only
  ever takes their length.\<close>

definition BasePermissions_zero :: BasePermissions where
  "BasePermissions_zero = \<lparr>Perms = 0, SetBit = 0\<rparr>"

definition AccountPermissions_zero :: AccountPermissions where
  "AccountPermissions_zero = \<lparr>Base = BasePermissions_zero, Roles = []\<rparr>"

definition Account_zero :: Account where
  "Account_zero = \<lparr>Address = 0, PublicKey = \<lparr>CurveType = 0, KeyBytes = []\<rparr>, Sequence = 0,
     Balance = 0, Code = [], Permissions = AccountPermissions_zero\<rparr>"

text \<open>The permission flags of \<^verbatim>\<open>burrow/permission\<close>: \<^verbatim>\<open>Root PermFlag = 1 << iota\<close>, then
  \<^verbatim>\<open>Send\<close>, then \<^verbatim>\<open>Call\<close>.\<close>

definition permission_Send :: PermFlag where
  "permission_Send = push_bit 1 1"

definition permission_Call :: PermFlag where
  "permission_Call = push_bit 2 1"

definition ContractPermFlags :: PermFlag where
  "ContractPermFlags = permission_Call OR permission_Send"

definition ContractPerms :: AccountPermissions where
  "ContractPerms = \<lparr>Base = \<lparr>Perms = ContractPermFlags, SetBit = ContractPermFlags\<rparr>, Roles = []\<rparr>"

subsection \<open>Errors\<close>

text \<open>The error codes of \<^verbatim>\<open>burrow/execution/errors\<close> that the state manager uses.\<close>

datatype ErrorCode =
    ErrorCodeGeneric
  | ErrorCodeInsufficientBalance
  | ErrorCodeInvalidAddress
  | ErrorCodeDuplicateAddress
  | ErrorCodeIllegalWrite
  | ErrorCodeIntegerOverflow

text \<open>Message texts are kept symbolic: a literal, or a format string with its arguments
  (the rendering done by \<^verbatim>\<open>fmt.Sprintf\<close> is not modelled, nor is the content of the stack
  trace).\<close>

datatype message = Lit string | Sprintf string "fmt_arg list"
and fmt_arg =
    ArgAddress Address
  | ArgAccount "Account option"
  | ArgUint64 uint64
  | ArgBytes bytes
  | ArgText message
  | ArgStackTrace

record Exception =
  ErrCode :: ErrorCode
  Exception :: message

text \<open>A Go \<^verbatim>\<open>error\<close> value that is not nil: either a plain error carrying a message (what
  the stub and the codec return) or an \<^verbatim>\<open>*errors.Exception\<close>. The nil error is \<open>None\<close>.\<close>

datatype go_error = ErrorString string | ExceptionError Exception

definition ErrorCodef :: "ErrorCode \<Rightarrow> string \<Rightarrow> fmt_arg list \<Rightarrow> go_error" where
  "ErrorCodef code format args = ExceptionError \<lparr>ErrCode = code, Exception = Sprintf format args\<rparr>"

fun AsException :: "go_error option \<Rightarrow> Exception option" where
  "AsException None = None"
| "AsException (Some (ExceptionError e)) = Some e"
| "AsException (Some (ErrorString m)) = Some \<lparr>ErrCode = ErrorCodeGeneric, Exception = Lit m\<rparr>"

subsection \<open>Keys and words (helpers of the Burrow and Go libraries)\<close>

definition hexDigit :: "bool \<Rightarrow> nat \<Rightarrow> char" where
  "hexDigit upper d = (if upper then ''0123456789ABCDEF'' else ''0123456789abcdef'') ! d"

fun hexEncode :: "bool \<Rightarrow> nat \<Rightarrow> nat \<Rightarrow> string" where
  "hexEncode upper 0 v = []"
| "hexEncode upper (Suc n) v = hexEncode upper n (v div 16) @ [hexDigit upper (v mod 16)]"

text \<open>\<^verbatim>\<open>address.String()\<close>: the 20 bytes in upper-case hexadecimal.\<close>

definition Address_String :: "Address \<Rightarrow> string" where
  "Address_String address = hexEncode True 40 (unat address)"

text \<open>\<^verbatim>\<open>hex.EncodeToString(key.Bytes())\<close>: the 32 bytes in lower-case hexadecimal.\<close>

definition hex_EncodeToString_Bytes :: "Word256 \<Rightarrow> string" where
  "hex_EncodeToString_Bytes key = hexEncode False 64 (unat key)"

text \<open>\<^verbatim>\<open>value.Bytes()\<close>: the 32 bytes of the word, most significant first.\<close>

definition Word256_Bytes :: "Word256 \<Rightarrow> bytes" where
  "Word256_Bytes v = map (\<lambda>i. ucast (drop_bit (8 * (31 - i)) v)) [0..<32]"

definition Zero256 :: Word256 where
  "Zero256 = 0"

text \<open>\<^verbatim>\<open>binary.LeftPadWord256(bz)\<close> copies \<^verbatim>\<open>bz\<close> into \<^verbatim>\<open>word[32-len(bz):]\<close>; with more than
  32 bytes the slice bound is negative and the Go runtime panics (\<open>None\<close>).\<close>

definition LeftPadWord256 :: "bytes \<Rightarrow> Word256 option" where
  "LeftPadWord256 bz =
     (if length bz \<le> 32 then Some (word_of_nat (foldl (\<lambda>acc b. acc * 256 + unat b) 0 bz))
      else None)"

text \<open>\<^verbatim>\<open>binary.IsUint64SumOverflow(a, b)\<close> is \<^verbatim>\<open>math.MaxUint64-a < b\<close>.\<close>

definition IsUint64SumOverflow :: "uint64 \<Rightarrow> uint64 \<Rightarrow> bool" where
  "IsUint64SumOverflow a b = (- 1 - a < b)"

section \<open>The external collaborators\<close>

text \<open>The Fabric chaincode stub (\<^verbatim>\<open>shim.ChaincodeStubInterface\<close>) is not part of the
  package: it is a parameter of the model, three functions over an arbitrary ledger state
  \<open>'l\<close>. The \<^verbatim>\<open>stateManager\<close> holds the stub in a field, as in the source.\<close>

record 'l ChaincodeStub =
  GetState :: "string \<Rightarrow> 'l \<Rightarrow> (bytes \<times> go_error option) \<times> 'l"
  PutState :: "string \<Rightarrow> bytes \<Rightarrow> 'l \<Rightarrow> go_error option \<times> 'l"
  DelState :: "string \<Rightarrow> 'l \<Rightarrow> go_error option \<times> 'l"

text \<open>The functions of the Burrow library whose code is not in the package: the generated
  protobuf codec of \<^verbatim>\<open>acm.Account\<close> (\<^verbatim>\<open>Unmarshal\<close> takes the receiver it decodes into) and
  the permission helpers. They are parameters as well.\<close>

record burrow_lib =
  Marshal :: "Account \<Rightarrow> bytes \<times> go_error option"
  Unmarshal :: "Account \<Rightarrow> bytes \<Rightarrow> Account \<times> go_error option"
  BasePermissions_Set :: "BasePermissions \<Rightarrow> PermFlag \<Rightarrow> bool \<Rightarrow> BasePermissions"
  BasePermissions_Unset :: "BasePermissions \<Rightarrow> PermFlag \<Rightarrow> BasePermissions"
  AccountPermissions_AddRole :: "AccountPermissions \<Rightarrow> string \<Rightarrow> AccountPermissions \<times> bool"
  AccountPermissions_RemoveRole :: "AccountPermissions \<Rightarrow> string \<Rightarrow> AccountPermissions \<times> bool"

text \<open>\<^verbatim>\<open>state.CacheOption\<close>: the options that Burrow defines.\<close>

datatype CacheOption = ReadOnly | Name string

section \<open>The state manager and the store of Go objects\<close>

record 'l stateManager =
  stub :: "'l ChaincodeStub"
  storageCache :: ref
  accountCache :: ref
  error :: "Exception option"
  readonly :: bool

text \<open>Every call made on the stub is recorded, in order (the mock of the test suite counts
  them the same way).\<close>

datatype stub_call = CallGetState string | CallPutState string bytes | CallDelState string

fun is_write :: "stub_call \<Rightarrow> bool" where
  "is_write (CallGetState key) = False"
| "is_write (CallPutState key val) = True"
| "is_write (CallDelState key) = True"

definition writes :: "stub_call list \<Rightarrow> stub_call list" where
  "writes cs = filter is_write cs"

record 'l world =
  ledger :: 'l
  calls :: "stub_call list"
  storageMaps :: "ref \<Rightarrow> (string \<rightharpoonup> Word256)"
  accountMaps :: "ref \<Rightarrow> (string \<rightharpoonup> bytes)"
  managers :: "ref \<Rightarrow> 'l stateManager"
  nextRef :: ref

definition stub_GetState :: "ref \<Rightarrow> string \<Rightarrow> 'l world \<Rightarrow> (bytes \<times> go_error option) \<times> 'l world" where
  "stub_GetState s key w =
     (let (r, l) = GetState (stub (managers w s)) key (ledger w)
      in (r, w\<lparr>ledger := l, calls := calls w @ [CallGetState key]\<rparr>))"

definition stub_PutState :: "ref \<Rightarrow> string \<Rightarrow> bytes \<Rightarrow> 'l world \<Rightarrow> go_error option \<times> 'l world" where
  "stub_PutState s key val w =
     (let (err, l) = PutState (stub (managers w s)) key val (ledger w)
      in (err, w\<lparr>ledger := l, calls := calls w @ [CallPutState key val]\<rparr>))"

definition stub_DelState :: "ref \<Rightarrow> string \<Rightarrow> 'l world \<Rightarrow> go_error option \<times> 'l world" where
  "stub_DelState s key w =
     (let (err, l) = DelState (stub (managers w s)) key (ledger w)
      in (err, w\<lparr>ledger := l, calls := calls w @ [CallDelState key]\<rparr>))"

section \<open>The functions of statemanager.go\<close>

definition NewStateManager :: "'l ChaincodeStub \<Rightarrow> 'l world \<Rightarrow> ref \<times> 'l world" where
  "NewStateManager stb w =
     (let ac = nextRef w; sc = Suc (nextRef w); m = Suc (Suc (nextRef w))
      in (m, w\<lparr>storageMaps := (storageMaps w)(sc := Map.empty),
               accountMaps := (accountMaps w)(ac := Map.empty),
               managers := (managers w)(m := \<lparr>stub = stb, storageCache = sc, accountCache = ac,
                                              error = None, readonly = False\<rparr>),
               nextRef := Suc m\<rparr>))"

definition NewCache :: "ref \<Rightarrow> CacheOption list \<Rightarrow> 'l world \<Rightarrow> ref \<times> 'l world" where
  "NewCache st cacheOptions w =
     (let newState = \<lparr>stub = stub (managers w st), storageCache = storageCache (managers w st),
                      accountCache = accountCache (managers w st), error = None, readonly = False\<rparr>;
          newState1 = foldl (\<lambda>ns option. if option = ReadOnly then ns\<lparr>readonly := True\<rparr> else ns)
                        newState cacheOptions;
          r = nextRef w
      in (r, w\<lparr>managers := (managers w)(r := newState1), nextRef := Suc r\<rparr>))"

definition Sync :: "ref \<Rightarrow> 'l world \<Rightarrow> Exception option" where
  "Sync st w = (if error (managers w st) \<noteq> None then error (managers w st) else None)"

definition Error :: "ref \<Rightarrow> 'l world \<Rightarrow> Exception option" where
  "Error st w = (if error (managers w st) = None then None else error (managers w st))"

definition PushError :: "ref \<Rightarrow> go_error option \<Rightarrow> 'l world \<Rightarrow> 'l world" where
  "PushError st err w =
     (if error (managers w st) = None then
        (case AsException err of
           None \<Rightarrow> w
         | Some ex \<Rightarrow>
             w\<lparr>managers := (managers w)(st := (managers w st)
                 \<lparr>error := Some (ex\<lparr>Exception := Sprintf ''%s\<newline>Stack trace: %s''
                                                     [ArgText (Exception ex), ArgStackTrace]\<rparr>)\<rparr>)\<rparr>)
      else w)"

text \<open>\<^verbatim>\<open>GetAccount\<close> returns the pair \<^verbatim>\<open>(*acm.Account, error)\<close>; a nil pointer is \<open>None\<close>.\<close>

definition GetAccount :: "burrow_lib \<Rightarrow> ref \<Rightarrow> Address \<Rightarrow> 'l world
    \<Rightarrow> (Account option \<times> go_error option) \<times> 'l world" where
  "GetAccount lb s address w =
     (let ((serializedAccount, err), w1) =
            (case accountMaps w (accountCache (managers w s)) (Address_String address) of
               Some val \<Rightarrow> ((val, None), w)
             | None \<Rightarrow> stub_GetState s (Address_String address) w)
      in if err \<noteq> None then ((None, err), w1)
         else if length serializedAccount = 0 then ((None, None), w1)
         else (let (acct, err1) = Unmarshal lb (Account_zero\<lparr>Address := address\<rparr>) serializedAccount
               in if err1 \<noteq> None then ((None, err1), w1) else ((Some acct, None), w1)))"

definition account :: "burrow_lib \<Rightarrow> ref \<Rightarrow> Address \<Rightarrow> 'l world \<Rightarrow> Account option \<times> 'l world" where
  "account lb st address w =
     (let ((acc, err), w1) = GetAccount lb st address w
      in if err \<noteq> None then (acc, PushError st err w1) else (acc, w1))"

definition mustAccount :: "burrow_lib \<Rightarrow> ref \<Rightarrow> Address \<Rightarrow> 'l world \<Rightarrow> Account option \<times> 'l world" where
  "mustAccount lb st address w =
     (let (acc, w1) = account lb st address w
      in if acc = None then
           (acc, PushError st (Some (ErrorCodef ErrorCodeIllegalWrite
                   ''attempted to modify non-existent account: %v'' [ArgAddress address])) w1)
         else (acc, w1))"

definition updateAccount :: "burrow_lib \<Rightarrow> ref \<Rightarrow> Account \<Rightarrow> 'l world \<Rightarrow> 'l world" where
  "updateAccount lb st updatedAccount w =
     (let (serializedAccount, err) = Marshal lb updatedAccount
      in if err \<noteq> None then PushError st err w
         else
           (let key = Address_String (Address updatedAccount);
                c = accountCache (managers w st);
                w1 = w\<lparr>accountMaps := (accountMaps w)(c := (accountMaps w c)(key \<mapsto> serializedAccount))\<rparr>;
                (err1, w2) = stub_PutState st key serializedAccount w1
            in if err1 \<noteq> None then PushError st err1 w2 else w2))"

definition removeAccount :: "ref \<Rightarrow> Address \<Rightarrow> 'l world \<Rightarrow> go_error option \<times> 'l world" where
  "removeAccount s address w =
     (let key = Address_String address;
          c = accountCache (managers w s);
          w1 = (if accountMaps w c key \<noteq> None
                then w\<lparr>accountMaps := (accountMaps w)(c := (accountMaps w c)(key := None))\<rparr>
                else w)
      in stub_DelState s key w1)"

subsection \<open>Reader\<close>

text \<open>The result of \<^verbatim>\<open>GetStorage\<close> is \<open>None\<close> when \<^verbatim>\<open>LeftPadWord256\<close> panics.\<close>

definition GetStorage :: "ref \<Rightarrow> Address \<Rightarrow> Word256 \<Rightarrow> 'l world \<Rightarrow> Word256 option \<times> 'l world" where
  "GetStorage s address key w =
     (let compKey = Address_String address @ hex_EncodeToString_Bytes key
      in case storageMaps w (storageCache (managers w s)) compKey of
           Some val \<Rightarrow> (Some val, w)
         | None \<Rightarrow>
             (let ((val, err), w1) = stub_GetState s compKey w
              in if err \<noteq> None then (Some Zero256, PushError s err w1)
                 else (LeftPadWord256 val, w1)))"

definition GetBalance :: "burrow_lib \<Rightarrow> ref \<Rightarrow> Address \<Rightarrow> 'l world \<Rightarrow> uint64 \<times> 'l world" where
  "GetBalance lb st address w =
     (let (acc, w1) = account lb st address w
      in case acc of None \<Rightarrow> (0, w1) | Some a \<Rightarrow> (Balance a, w1))"

definition GetPermissions :: "burrow_lib \<Rightarrow> ref \<Rightarrow> Address \<Rightarrow> 'l world \<Rightarrow> AccountPermissions \<times> 'l world" where
  "GetPermissions lb st address w =
     (let (acc, w1) = account lb st address w
      in case acc of None \<Rightarrow> (AccountPermissions_zero, w1) | Some a \<Rightarrow> (Permissions a, w1))"

definition GetCode :: "burrow_lib \<Rightarrow> ref \<Rightarrow> Address \<Rightarrow> 'l world \<Rightarrow> bytes \<times> 'l world" where
  "GetCode lb st address w =
     (let (acc, w1) = account lb st address w
      in case acc of None \<Rightarrow> ([], w1) | Some a \<Rightarrow> (Code a, w1))"

definition Exists :: "burrow_lib \<Rightarrow> ref \<Rightarrow> Address \<Rightarrow> 'l world \<Rightarrow> bool \<times> 'l world" where
  "Exists lb st address w =
     (let ((acc, err), w1) = GetAccount lb st address w
      in if err \<noteq> None then (False, PushError st err w1)
         else if acc = None then (False, w1)
         else (True, w1))"

definition GetSequence :: "burrow_lib \<Rightarrow> ref \<Rightarrow> Address \<Rightarrow> 'l world \<Rightarrow> uint64 \<times> 'l world" where
  "GetSequence lb st address w =
     (let (acc, w1) = account lb st address w
      in case acc of None \<Rightarrow> (0, w1) | Some a \<Rightarrow> (Sequence a, w1))"

subsection \<open>Writer\<close>

definition CreateAccount :: "burrow_lib \<Rightarrow> ref \<Rightarrow> Address \<Rightarrow> 'l world \<Rightarrow> 'l world" where
  "CreateAccount lb st address w =
     (let (ex, w1) = Exists lb st address w
      in if ex then
           (let ((acc, err), w2) = GetAccount lb st address w1
            in PushError st (Some (ErrorCodef ErrorCodeDuplicateAddress
                 ''tried to create an account at an address that already exists: %v %v''
                 [ArgAddress address, ArgAccount acc])) w2)
         else updateAccount lb st (Account_zero\<lparr>Address := address, Permissions := ContractPerms\<rparr>) w1)"

definition InitCode :: "burrow_lib \<Rightarrow> ref \<Rightarrow> Address \<Rightarrow> bytes \<Rightarrow> 'l world \<Rightarrow> 'l world" where
  "InitCode lb st address code w =
     (let (acc, w1) = mustAccount lb st address w
      in case acc of
           None \<Rightarrow>
             PushError st (Some (ErrorCodef ErrorCodeInvalidAddress
               ''tried to initialise code for an account that does not exist: %v''
               [ArgAddress address])) w1
         | Some a \<Rightarrow>
             if length (Code a) > 0 then
               PushError st (Some (ErrorCodef ErrorCodeIllegalWrite
                 ''tried to initialise code for a contract that already exists: %v existing code %v''
                 [ArgAddress address, ArgBytes (Code a)])) w1
             else updateAccount lb st (a\<lparr>Code := code\<rparr>) w1)"

definition RemoveAccount :: "burrow_lib \<Rightarrow> ref \<Rightarrow> Address \<Rightarrow> 'l world \<Rightarrow> 'l world" where
  "RemoveAccount lb st address w =
     (let (ex, w1) = Exists lb st address w
      in if \<not> ex then
           PushError st (Some (ErrorCodef ErrorCodeDuplicateAddress
             ''tried to remove an account at an address that does not exist: %v''
             [ArgAddress address])) w1
         else
           (let (err, w2) = removeAccount st address w1
            in if err \<noteq> None then PushError st err w2 else w2))"

definition SetStorage :: "ref \<Rightarrow> Address \<Rightarrow> Word256 \<Rightarrow> Word256 \<Rightarrow> 'l world \<Rightarrow> 'l world" where
  "SetStorage s address key val w =
     (let compKey = Address_String address @ hex_EncodeToString_Bytes key;
          (err, w1) = stub_PutState s compKey (Word256_Bytes val) w;
          c = storageCache (managers w1 s);
          w2 = (if err = None
                then w1\<lparr>storageMaps := (storageMaps w1)(c := (storageMaps w1 c)(compKey \<mapsto> val))\<rparr>
                else w1)
      in if err \<noteq> None then PushError s err w2 else w2)"

definition AddToBalance :: "burrow_lib \<Rightarrow> ref \<Rightarrow> Address \<Rightarrow> uint64 \<Rightarrow> 'l world \<Rightarrow> 'l world" where
  "AddToBalance lb st address amount w =
     (let (acc, w1) = mustAccount lb st address w
      in case acc of
           None \<Rightarrow> w1
         | Some a \<Rightarrow>
             if IsUint64SumOverflow (Balance a) amount then
               PushError st (Some (ErrorCodef ErrorCodeIntegerOverflow
                 ''uint64 overflow: attempt to add %v to the balance of %s''
                 [ArgUint64 amount, ArgAddress address])) w1
             else updateAccount lb st (a\<lparr>Balance := Balance a + amount\<rparr>) w1)"

definition SubtractFromBalance :: "burrow_lib \<Rightarrow> ref \<Rightarrow> Address \<Rightarrow> uint64 \<Rightarrow> 'l world \<Rightarrow> 'l world" where
  "SubtractFromBalance lb st address amount w =
     (let (acc, w1) = mustAccount lb st address w
      in case acc of
           None \<Rightarrow> w1
         | Some a \<Rightarrow>
             if amount > Balance a then
               PushError st (Some (ErrorCodef ErrorCodeInsufficientBalance
                 ''insufficient funds: attempt to subtract %v from the balance of %s''
                 [ArgUint64 amount, ArgAddress (Address a)])) w1
             else updateAccount lb st (a\<lparr>Balance := Balance a - amount\<rparr>) w1)"

definition SetPermission :: "burrow_lib \<Rightarrow> ref \<Rightarrow> Address \<Rightarrow> PermFlag \<Rightarrow> bool \<Rightarrow> 'l world \<Rightarrow> 'l world" where
  "SetPermission lb st address permFlag val w =
     (let (acc, w1) = mustAccount lb st address w
      in case acc of
           None \<Rightarrow> w1
         | Some a \<Rightarrow>
             updateAccount lb st
               (a\<lparr>Permissions := (Permissions a)
                    \<lparr>Base := BasePermissions_Set lb (Base (Permissions a)) permFlag val\<rparr>\<rparr>) w1)"

definition UnsetPermission :: "burrow_lib \<Rightarrow> ref \<Rightarrow> Address \<Rightarrow> PermFlag \<Rightarrow> 'l world \<Rightarrow> 'l world" where
  "UnsetPermission lb st address permFlag w =
     (let (acc, w1) = mustAccount lb st address w
      in case acc of
           None \<Rightarrow> w1
         | Some a \<Rightarrow>
             updateAccount lb st
               (a\<lparr>Permissions := (Permissions a)
                    \<lparr>Base := BasePermissions_Unset lb (Base (Permissions a)) permFlag\<rparr>\<rparr>) w1)"

definition AddRole :: "burrow_lib \<Rightarrow> ref \<Rightarrow> Address \<Rightarrow> string \<Rightarrow> 'l world \<Rightarrow> bool \<times> 'l world" where
  "AddRole lb st address role w =
     (let (acc, w1) = mustAccount lb st address w
      in case acc of
           None \<Rightarrow> (False, w1)
         | Some a \<Rightarrow>
             (let (perms, added) = AccountPermissions_AddRole lb (Permissions a) role
              in (added, updateAccount lb st (a\<lparr>Permissions := perms\<rparr>) w1)))"

definition RemoveRole :: "burrow_lib \<Rightarrow> ref \<Rightarrow> Address \<Rightarrow> string \<Rightarrow> 'l world \<Rightarrow> bool \<times> 'l world" where
  "RemoveRole lb st address role w =
     (let (acc, w1) = mustAccount lb st address w
      in case acc of
           None \<Rightarrow> (False, w1)
         | Some a \<Rightarrow>
             (let (perms, removed) = AccountPermissions_RemoveRole lb (Permissions a) role
              in (removed, updateAccount lb st (a\<lparr>Permissions := perms\<rparr>) w1)))"

definition IncSequence :: "burrow_lib \<Rightarrow> ref \<Rightarrow> Address \<Rightarrow> 'l world \<Rightarrow> 'l world" where
  "IncSequence lb st address w =
     (let (acc, w1) = mustAccount lb st address w
      in case acc of
           None \<Rightarrow> w1
         | Some a \<Rightarrow> updateAccount lb st (a\<lparr>Sequence := Sequence a + 1\<rparr>) w1)"

subsection \<open>The interface as a whole\<close>

text \<open>One constructor per function of the interface that can change the state, so that a
  property of "every operation" can be stated. \<open>invoke\<close> makes the call and drops
  its result.\<close>

datatype operation =
    CallCreateAccount Address
  | CallRemoveAccount Address
  | CallInitCode Address bytes
  | CallAddToBalance Address uint64
  | CallSubtractFromBalance Address uint64
  | CallSetStorage Address Word256 Word256
  | CallSetPermission Address PermFlag bool
  | CallUnsetPermission Address PermFlag
  | CallAddRole Address string
  | CallRemoveRole Address string
  | CallIncSequence Address
  | CallGetStorage Address Word256
  | CallGetBalance Address
  | CallGetPermissions Address
  | CallGetCode Address
  | CallExists Address
  | CallGetSequence Address
  | CallGetAccount Address
  | CallPushError "go_error option"

fun is_mutator :: "operation \<Rightarrow> bool" where
  "is_mutator (CallCreateAccount a) = True"
| "is_mutator (CallRemoveAccount a) = True"
| "is_mutator (CallInitCode a c) = True"
| "is_mutator (CallAddToBalance a n) = True"
| "is_mutator (CallSubtractFromBalance a n) = True"
| "is_mutator (CallSetStorage a k v) = True"
| "is_mutator (CallSetPermission a f b) = True"
| "is_mutator (CallUnsetPermission a f) = True"
| "is_mutator (CallAddRole a r) = True"
| "is_mutator (CallRemoveRole a r) = True"
| "is_mutator (CallIncSequence a) = True"
| "is_mutator m = False"

fun invoke :: "burrow_lib \<Rightarrow> ref \<Rightarrow> operation \<Rightarrow> 'l world \<Rightarrow> 'l world" where
  "invoke lb st (CallCreateAccount a) w = CreateAccount lb st a w"
| "invoke lb st (CallRemoveAccount a) w = RemoveAccount lb st a w"
| "invoke lb st (CallInitCode a c) w = InitCode lb st a c w"
| "invoke lb st (CallAddToBalance a n) w = AddToBalance lb st a n w"
| "invoke lb st (CallSubtractFromBalance a n) w = SubtractFromBalance lb st a n w"
| "invoke lb st (CallSetStorage a k v) w = SetStorage st a k v w"
| "invoke lb st (CallSetPermission a f b) w = SetPermission lb st a f b w"
| "invoke lb st (CallUnsetPermission a f) w = UnsetPermission lb st a f w"
| "invoke lb st (CallAddRole a r) w = snd (AddRole lb st a r w)"
| "invoke lb st (CallRemoveRole a r) w = snd (RemoveRole lb st a r w)"
| "invoke lb st (CallIncSequence a) w = IncSequence lb st a w"
| "invoke lb st (CallGetStorage a k) w = snd (GetStorage st a k w)"
| "invoke lb st (CallGetBalance a) w = snd (GetBalance lb st a w)"
| "invoke lb st (CallGetPermissions a) w = snd (GetPermissions lb st a w)"
| "invoke lb st (CallGetCode a) w = snd (GetCode lb st a w)"
| "invoke lb st (CallExists a) w = snd (Exists lb st a w)"
| "invoke lb st (CallGetSequence a) w = snd (GetSequence lb st a w)"
| "invoke lb st (CallGetAccount a) w = snd (GetAccount lb st a w)"
| "invoke lb st (CallPushError err) w = PushError st err w"

section \<open>Fixtures of the test suite\<close>

text \<open>The mock stub of \<^verbatim>\<open>statemanager_test.go\<close>: reads are served from \<^verbatim>\<open>fakeGetLedger\<close>,
  writes and deletions go to \<^verbatim>\<open>fakePutLedger\<close>, "so that writes to the ledger cannot be read
  in the same transaction"; no call fails.\<close>

record mock_ledger =
  fakeGetLedger :: "string \<rightharpoonup> bytes"
  fakePutLedger :: "string \<rightharpoonup> bytes"

definition mockStub :: "mock_ledger ChaincodeStub" where
  "mockStub =
     \<lparr>GetState = (\<lambda>key l. ((case fakeGetLedger l key of None \<Rightarrow> [] | Some v \<Rightarrow> v, None), l)),
      PutState = (\<lambda>key val l. (None, l\<lparr>fakePutLedger := (fakePutLedger l)(key \<mapsto> val)\<rparr>)),
      DelState = (\<lambda>key l. (None, l\<lparr>fakePutLedger := (fakePutLedger l)(key := None)\<rparr>))\<rparr>"

text \<open>\<^verbatim>\<open>crypto.AddressFromBytes([]byte("0000000000000address"))\<close>.\<close>

definition addr :: Address where
  "addr = 0x3030303030303030303030303061646472657373"

text \<open>A stand-in for the library in the examples: a codec with a fixed layout (a tag byte,
  the low byte of the balance, the low byte of the sequence, then the code; the other fields
  stay as they are in the receiver), and the permission helpers.\<close>

definition testMarshal :: "Account \<Rightarrow> bytes \<times> go_error option" where
  "testMarshal a = (1 # ucast (Balance a) # ucast (Sequence a) # Code a, None)"

definition testUnmarshal :: "Account \<Rightarrow> bytes \<Rightarrow> Account \<times> go_error option" where
  "testUnmarshal a bs =
     (case bs of
        tag # b # sq # code \<Rightarrow> (a\<lparr>Sequence := ucast sq, Balance := ucast b, Code := code\<rparr>, None)
      | _ \<Rightarrow> (a, Some (ErrorString ''unexpected EOF'')))"

definition testLib :: burrow_lib where
  "testLib =
     \<lparr>Marshal = testMarshal,
      Unmarshal = testUnmarshal,
      BasePermissions_Set = (\<lambda>bp ty v. if ty = 0 then bp
         else bp\<lparr>Perms := (if v then Perms bp OR ty else Perms bp AND NOT ty),
                 SetBit := SetBit bp OR ty\<rparr>),
      BasePermissions_Unset = (\<lambda>bp ty. if ty = 0 then bp else bp\<lparr>SetBit := SetBit bp AND NOT ty\<rparr>),
      AccountPermissions_AddRole = (\<lambda>ap role. if role \<in> set (Roles ap) then (ap, False)
         else (ap\<lparr>Roles := Roles ap @ [role]\<rparr>, True)),
      AccountPermissions_RemoveRole = (\<lambda>ap role. if role \<in> set (Roles ap)
         then (ap\<lparr>Roles := remove1 role (Roles ap)\<rparr>, True) else (ap, False))\<rparr>"

text \<open>The state of \<^verbatim>\<open>BeforeEach\<close>: a store with no object in it and a ledger to read from,
  then \<^verbatim>\<open>sm = statemanager.NewStateManager(mockStub)\<close>.\<close>

definition emptyWorld :: "(string \<rightharpoonup> bytes) \<Rightarrow> mock_ledger world" where
  "emptyWorld g =
     \<lparr>ledger = \<lparr>fakeGetLedger = g, fakePutLedger = Map.empty\<rparr>, calls = [],
      storageMaps = (\<lambda>r. Map.empty), accountMaps = (\<lambda>r. Map.empty),
      managers = (\<lambda>r. \<lparr>stub = mockStub, storageCache = 0, accountCache = 0, error = None,
                         readonly = False\<rparr>),
      nextRef = 0\<rparr>"

definition sm :: ref where
  "sm = fst (NewStateManager mockStub (emptyWorld Map.empty))"

definition freshWorld :: "(string \<rightharpoonup> bytes) \<Rightarrow> mock_ledger world" where
  "freshWorld g = snd (NewStateManager mockStub (emptyWorld g))"

text \<open>The account of the balance tests (\<^verbatim>\<open>acm.Account{Address: addr, Balance: 123}\<close>), and
  the state in which the ledger holds the serialised form of an account under the key of
  \<^verbatim>\<open>addr\<close>.\<close>

definition account123 :: Account where
  "account123 = Account_zero\<lparr>Address := addr, Balance := 123\<rparr>"

definition worldWith :: "Account \<Rightarrow> mock_ledger world" where
  "worldWith a = freshWorld (Map.empty(Address_String addr \<mapsto> fst (testMarshal a)))"

text \<open>The storage tests read a slot of \<^verbatim>\<open>addr\<close> that the ledger holds; here the key is the
  word 7 and the stored bytes are the single byte 5.\<close>

definition storageKey7 :: string where
  "storageKey7 = Address_String addr @ hex_EncodeToString_Bytes 7"

definition worldWithSlot :: "mock_ledger world" where
  "worldWithSlot = freshWorld (Map.empty(storageKey7 \<mapsto> [5]))"

definition worldWithAccount :: "mock_ledger world" where
  "worldWithAccount = worldWith account123"

text \<open>The new state manager after \<^verbatim>\<open>sm.PushError(errors.New("boom!"))\<close>.\<close>

definition erredWorld :: "mock_ledger world" where
  "erredWorld = PushError sm (Some (ErrorString ''boom!'')) (freshWorld Map.empty)"

text \<open>\<^verbatim>\<open>sm.NewCache(state.ReadOnly)\<close> on the new state manager.\<close>

definition view :: ref where
  "view = fst (NewCache sm [ReadOnly] (freshWorld Map.empty))"

definition viewWorld :: "mock_ledger world" where
  "viewWorld = snd (NewCache sm [ReadOnly] (freshWorld Map.empty))"

section \<open>Relations between states, for the statements below\<close>

text \<open>The state in which the state manager \<open>st\<close> has no error and everything else is as
  in \<open>w\<close>.\<close>

definition clearError :: "ref \<Rightarrow> 'l world \<Rightarrow> 'l world" where
  "clearError st w = w\<lparr>managers := (managers w)(st := (managers w st)\<lparr>error := None\<rparr>)\<rparr>"

text \<open>Two states that differ at most in the error fields of their state managers.\<close>

definition same_but_errors :: "'l world \<Rightarrow> 'l world \<Rightarrow> bool" where
  "same_but_errors w w' \<longleftrightarrow>
     ledger w' = ledger w \<and> calls w' = calls w \<and>
     storageMaps w' = storageMaps w \<and> accountMaps w' = accountMaps w \<and>
     nextRef w' = nextRef w \<and>
     (\<forall>x. stub (managers w' x) = stub (managers w x) \<and>
          storageCache (managers w' x) = storageCache (managers w x) \<and>
          accountCache (managers w' x) = accountCache (managers w x) \<and>
          readonly (managers w' x) = readonly (managers w x))"

text \<open>A call on the state manager \<open>st\<close> allocates nothing, leaves every other state manager
  as it is, leaves the stub, the cache references and the read-only flag of \<open>st\<close> as they
  are, and leaves the error of \<open>st\<close> as it is if there is one.\<close>

definition latch_step :: "ref \<Rightarrow> 'l world \<Rightarrow> 'l world \<Rightarrow> bool" where
  "latch_step st w w' \<longleftrightarrow>
     nextRef w' = nextRef w \<and>
     (\<forall>x. x \<noteq> st \<longrightarrow> managers w' x = managers w x) \<and>
     stub (managers w' st) = stub (managers w st) \<and>
     storageCache (managers w' st) = storageCache (managers w st) \<and>
     accountCache (managers w' st) = accountCache (managers w st) \<and>
     readonly (managers w' st) = readonly (managers w st) \<and>
     (error (managers w st) \<noteq> None \<longrightarrow> error (managers w' st) = error (managers w st))"

section \<open>What an operation may do to the state managers\<close>

lemma latch_step_refl: "latch_step st w w"
  by (simp add: latch_step_def)

lemma latch_step_trans: "latch_step st w w1 \<Longrightarrow> latch_step st w1 w2 \<Longrightarrow> latch_step st w w2"
  by (auto simp: latch_step_def)

lemma latch_PushError: "latch_step st w (PushError st err w)"
  by (auto simp: latch_step_def PushError_def split: option.splits)

lemma latch_stub_GetState: "latch_step st w (snd (stub_GetState st key w))"
  by (simp add: latch_step_def stub_GetState_def split_def Let_def)

lemma latch_stub_PutState: "latch_step st w (snd (stub_PutState st key v w))"
  by (simp add: latch_step_def stub_PutState_def split_def Let_def)

lemma latch_stub_DelState: "latch_step st w (snd (stub_DelState st key w))"
  by (simp add: latch_step_def stub_DelState_def split_def Let_def)

lemma latch_GetAccount: "latch_step st w (snd (GetAccount lb st a w))"
  using latch_stub_GetState [of st w "Address_String a"]
  by (auto simp: GetAccount_def Let_def split_def latch_step_refl split: option.splits)

lemma latch_account: "latch_step st w (snd (account lb st a w))"
  using latch_GetAccount [of st w lb a]
  by (auto simp: account_def split_def Let_def intro: latch_step_trans latch_PushError)

lemma latch_mustAccount: "latch_step st w (snd (mustAccount lb st a w))"
  using latch_account [of st w lb a]
  by (auto simp: mustAccount_def split_def Let_def intro: latch_step_trans latch_PushError)

lemma latch_Exists: "latch_step st w (snd (Exists lb st a w))"
  using latch_GetAccount [of st w lb a]
  by (auto simp: Exists_def split_def Let_def intro: latch_step_trans latch_PushError)

lemma latch_cache_upd: "latch_step st w (w\<lparr>accountMaps := m\<rparr>)" "latch_step st w (w\<lparr>storageMaps := m'\<rparr>)"
  by (simp_all add: latch_step_def)

lemma latch_updateAccount: "latch_step st w (updateAccount lb st acc w)"
proof -
  let ?k = "Address_String (Address acc)"
  let ?bs = "fst (Marshal lb acc)"
  let ?w1 = "w\<lparr>accountMaps := (accountMaps w)(accountCache (managers w st) := (accountMaps w (accountCache (managers w st)))(?k \<mapsto> ?bs))\<rparr>"
  have a: "latch_step st w ?w1" by (rule latch_cache_upd)
  have b: "latch_step st ?w1 (snd (stub_PutState st ?k ?bs ?w1))" by (rule latch_stub_PutState)
  have c: "latch_step st w (snd (stub_PutState st ?k ?bs ?w1))" by (rule latch_step_trans [OF a b])
  show ?thesis
    using c latch_step_trans [OF c latch_PushError]
    by (auto simp: updateAccount_def Let_def split_def latch_PushError)
qed


lemma latch_removeAccount: "latch_step st w (snd (removeAccount st a w))"
  by (auto simp: removeAccount_def Let_def
           intro: latch_step_trans [OF latch_cache_upd(1) latch_stub_DelState] latch_stub_DelState)

lemma latch_then_PushError: "latch_step st w w1 \<Longrightarrow> latch_step st w (PushError st err w1)"
  by (rule latch_step_trans [OF _ latch_PushError])

lemma latch_then_updateAccount: "latch_step st w w1 \<Longrightarrow> latch_step st w (updateAccount lb st acc w1)"
  by (rule latch_step_trans [OF _ latch_updateAccount])

lemma latch_CreateAccount: "latch_step st w (CreateAccount lb st a w)"
proof -
  have e: "latch_step st w (snd (Exists lb st a w))" by (rule latch_Exists)
  have g: "latch_step st w (snd (GetAccount lb st a (snd (Exists lb st a w))))"
    by (rule latch_step_trans [OF e latch_GetAccount])
  show ?thesis
    by (simp add: CreateAccount_def split_def Let_def
          latch_then_PushError [OF g] latch_then_updateAccount [OF e])
qed

lemma latch_RemoveAccount: "latch_step st w (RemoveAccount lb st a w)"
proof -
  have e: "latch_step st w (snd (Exists lb st a w))" by (rule latch_Exists)
  have r: "latch_step st w (snd (removeAccount st a (snd (Exists lb st a w))))"
    by (rule latch_step_trans [OF e latch_removeAccount])
  show ?thesis
    by (simp add: RemoveAccount_def split_def Let_def
          latch_then_PushError [OF e] latch_then_PushError [OF r] r)
qed

lemma latch_SetStorage: "latch_step s w (SetStorage s a k v w)"
proof -
  let ?p = "stub_PutState s (Address_String a @ hex_EncodeToString_Bytes k) (Word256_Bytes v) w"
  have p: "latch_step s w (snd ?p)" by (rule latch_stub_PutState)
  have c: "latch_step s w (snd ?p\<lparr>storageMaps := m\<rparr>)" for m
    by (rule latch_step_trans [OF p latch_cache_upd(2)])
  show ?thesis
    by (simp add: SetStorage_def split_def Let_def c latch_then_PushError [OF p])
qed

lemma latch_InitCode: "latch_step st w (InitCode lb st a c w)"
  by (simp add: InitCode_def split_def Let_def latch_then_PushError [OF latch_mustAccount]
        latch_then_updateAccount [OF latch_mustAccount] split: option.split)

lemma latch_AddToBalance: "latch_step st w (AddToBalance lb st a n w)"
  by (simp add: AddToBalance_def split_def Let_def latch_then_PushError [OF latch_mustAccount]
        latch_then_updateAccount [OF latch_mustAccount] latch_mustAccount split: option.split)

lemma latch_SubtractFromBalance: "latch_step st w (SubtractFromBalance lb st a n w)"
  by (simp add: SubtractFromBalance_def split_def Let_def
        latch_then_PushError [OF latch_mustAccount]
        latch_then_updateAccount [OF latch_mustAccount] latch_mustAccount split: option.split)

lemma latch_SetPermission: "latch_step st w (SetPermission lb st a f b w)"
  by (simp add: SetPermission_def split_def Let_def
        latch_then_updateAccount [OF latch_mustAccount] latch_mustAccount split: option.split)

lemma latch_UnsetPermission: "latch_step st w (UnsetPermission lb st a f w)"
  by (simp add: UnsetPermission_def split_def Let_def
        latch_then_updateAccount [OF latch_mustAccount] latch_mustAccount split: option.split)

lemma latch_AddRole: "latch_step st w (snd (AddRole lb st a r w))"
  by (simp add: AddRole_def split_def Let_def
        latch_then_updateAccount [OF latch_mustAccount] latch_mustAccount split: option.split)

lemma latch_RemoveRole: "latch_step st w (snd (RemoveRole lb st a r w))"
  by (simp add: RemoveRole_def split_def Let_def
        latch_then_updateAccount [OF latch_mustAccount] latch_mustAccount split: option.split)

lemma latch_IncSequence: "latch_step st w (IncSequence lb st a w)"
  by (simp add: IncSequence_def split_def Let_def
        latch_then_updateAccount [OF latch_mustAccount] latch_mustAccount split: option.split)

lemma latch_GetStorage: "latch_step s w (snd (GetStorage s a k w))"
  by (simp add: GetStorage_def split_def Let_def latch_step_refl latch_stub_GetState
        latch_then_PushError [OF latch_stub_GetState] split: option.split)

lemma latch_GetBalance: "latch_step st w (snd (GetBalance lb st a w))"
  by (simp add: GetBalance_def split_def Let_def latch_account split: option.split)

lemma latch_GetPermissions: "latch_step st w (snd (GetPermissions lb st a w))"
  by (simp add: GetPermissions_def split_def Let_def latch_account split: option.split)

lemma latch_GetCode: "latch_step st w (snd (GetCode lb st a w))"
  by (simp add: GetCode_def split_def Let_def latch_account split: option.split)

lemma latch_GetSequence: "latch_step st w (snd (GetSequence lb st a w))"
  by (simp add: GetSequence_def split_def Let_def latch_account split: option.split)

lemma latch_invoke: "latch_step st w (invoke lb st m w)"
  by (cases m)
     (simp_all add: latch_CreateAccount latch_RemoveAccount latch_InitCode latch_AddToBalance
        latch_SubtractFromBalance latch_SetStorage latch_SetPermission latch_UnsetPermission
        latch_AddRole latch_RemoveRole latch_IncSequence latch_GetStorage latch_GetBalance
        latch_GetPermissions latch_GetCode latch_Exists latch_GetSequence latch_GetAccount
        latch_PushError)

section \<open>The fixtures, evaluated\<close>

lemma sm_eq: "sm = 2"
  by (simp add: sm_def NewStateManager_def emptyWorld_def Let_def)

lemma freshWorld_simps:
  "managers (freshWorld g) sm =
     \<lparr>stub = mockStub, storageCache = 1, accountCache = 0, error = None, readonly = False\<rparr>"
  "storageMaps (freshWorld g) = (\<lambda>r. Map.empty)"
  "accountMaps (freshWorld g) = (\<lambda>r. Map.empty)"
  "calls (freshWorld g) = []"
  "ledger (freshWorld g) = \<lparr>fakeGetLedger = g, fakePutLedger = Map.empty\<rparr>"
  "nextRef (freshWorld g) = 3"
  by (auto simp add: sm_eq freshWorld_def NewStateManager_def emptyWorld_def Let_def numeral_3_eq_3)

section \<open>Storage: read after write\<close>

lemma stub_preserved_SetStorage: "stub (managers (SetStorage s a k v w) s) = stub (managers w s)"
  using latch_SetStorage [of s w a k v] by (simp add: latch_step_def)

lemma SetStorage_then_GetStorage:
  assumes "fst (PutState (stub (managers w s)) (Address_String a @ hex_EncodeToString_Bytes k)
                  (Word256_Bytes v) (ledger w)) = None"
  shows "GetStorage s a k (SetStorage s a k v w) = (Some v, SetStorage s a k v w)"
  using assms
  by (simp add: SetStorage_def GetStorage_def stub_PutState_def Let_def split_def)

text \<open>
  Claim C6. With a stub whose \<^verbatim>\<open>PutState\<close> never fails, \<^verbatim>\<open>SetStorage(A, K, V1)\<close> followed
  by \<^verbatim>\<open>GetStorage(A, K)\<close> returns \<open>V1\<close> and leaves the whole world as \<^verbatim>\<open>SetStorage\<close> left it:
  the read makes no call on the stub (the list of calls and the ledger are part of the
  world). A following \<^verbatim>\<open>SetStorage(A, K, V2)\<close> and \<^verbatim>\<open>GetStorage(A, K)\<close> returns \<open>V2\<close>,
  again without a call on the stub.
\<close>

theorem SetStorage_GetStorage_read_after_write:
  assumes "\<And>key val l. fst (PutState (stub (managers w s)) key val l) = None"
  shows "GetStorage s a k (SetStorage s a k v1 w) = (Some v1, SetStorage s a k v1 w) \<and>
         GetStorage s a k (SetStorage s a k v2 (snd (GetStorage s a k (SetStorage s a k v1 w))))
           = (Some v2, SetStorage s a k v2 (SetStorage s a k v1 w))"
proof -
  have 1: "GetStorage s a k (SetStorage s a k v1 w) = (Some v1, SetStorage s a k v1 w)"
    by (rule SetStorage_then_GetStorage) (rule assms)
  have 2: "GetStorage s a k (SetStorage s a k v2 (SetStorage s a k v1 w))
             = (Some v2, SetStorage s a k v2 (SetStorage s a k v1 w))"
    by (rule SetStorage_then_GetStorage) (simp add: stub_preserved_SetStorage assms)
  show ?thesis using 1 2 by simp
qed

theorem SetStorage_GetStorage_read_after_write_witness:
  "(\<forall>key val l. fst (PutState (stub (managers (freshWorld Map.empty) sm)) key val l) = None) \<and>
   GetStorage sm addr 7 (SetStorage sm addr 7 11 (freshWorld Map.empty))
     = (Some 11, SetStorage sm addr 7 11 (freshWorld Map.empty)) \<and>
   GetStorage sm addr 7 (SetStorage sm addr 7 12
       (snd (GetStorage sm addr 7 (SetStorage sm addr 7 11 (freshWorld Map.empty)))))
     = (Some 12, SetStorage sm addr 7 12 (SetStorage sm addr 7 11 (freshWorld Map.empty)))"
proof -
  have h: "fst (PutState (stub (managers (freshWorld Map.empty) sm)) key val l) = None"
    for key val l
    by (simp add: freshWorld_simps mockStub_def)
  have t: "GetStorage sm addr 7 (SetStorage sm addr 7 11 (freshWorld Map.empty))
       = (Some 11, SetStorage sm addr 7 11 (freshWorld Map.empty)) \<and>
     GetStorage sm addr 7 (SetStorage sm addr 7 12
         (snd (GetStorage sm addr 7 (SetStorage sm addr 7 11 (freshWorld Map.empty)))))
       = (Some 12, SetStorage sm addr 7 12 (SetStorage sm addr 7 11 (freshWorld Map.empty)))"
    by (rule SetStorage_GetStorage_read_after_write [OF h])
  show ?thesis
    by (rule conjI [OF _ t]) (simp add: h)
qed

section \<open>Effects of the building blocks\<close>

lemma PushError_frame [simp]:
  "ledger (PushError st err w) = ledger w"
  "calls (PushError st err w) = calls w"
  "storageMaps (PushError st err w) = storageMaps w"
  "accountMaps (PushError st err w) = accountMaps w"
  "nextRef (PushError st err w) = nextRef w"
  by (simp_all add: PushError_def split: option.split)

lemma PushError_ErrCode:
  "map_option ErrCode (Error st (PushError st (Some (ErrorCodef c f args)) w))
     = Some (case Error st w of None \<Rightarrow> c | Some e \<Rightarrow> ErrCode e)"
  by (simp add: PushError_def Error_def ErrorCodef_def split: option.split)

lemma PushError_latched: "Error st w = Some e \<Longrightarrow> PushError st err w = w"
  by (simp add: PushError_def Error_def split: if_splits)

lemma stub_GetState_frame [simp]:
  "calls (snd (stub_GetState s key w)) = calls w @ [CallGetState key]"
  "storageMaps (snd (stub_GetState s key w)) = storageMaps w"
  "accountMaps (snd (stub_GetState s key w)) = accountMaps w"
  "managers (snd (stub_GetState s key w)) = managers w"
  "nextRef (snd (stub_GetState s key w)) = nextRef w"
  "fst (stub_GetState s key w) = fst (GetState (stub (managers w s)) key (ledger w))"
  "ledger (snd (stub_GetState s key w)) = snd (GetState (stub (managers w s)) key (ledger w))"
  by (simp_all add: stub_GetState_def split_def Let_def)

lemma stub_PutState_frame [simp]:
  "calls (snd (stub_PutState s key v w)) = calls w @ [CallPutState key v]"
  "storageMaps (snd (stub_PutState s key v w)) = storageMaps w"
  "accountMaps (snd (stub_PutState s key v w)) = accountMaps w"
  "managers (snd (stub_PutState s key v w)) = managers w"
  "nextRef (snd (stub_PutState s key v w)) = nextRef w"
  "fst (stub_PutState s key v w) = fst (PutState (stub (managers w s)) key v (ledger w))"
  "ledger (snd (stub_PutState s key v w)) = snd (PutState (stub (managers w s)) key v (ledger w))"
  by (simp_all add: stub_PutState_def split_def Let_def)

lemma writes_Nil [simp]: "writes [] = []"
  by (simp add: writes_def)

lemma writes_append [simp]: "writes (xs @ ys) = writes xs @ writes ys"
  by (simp add: writes_def)

lemma writes_single [simp]:
  "writes [CallGetState k] = []"
  "writes [CallPutState k v] = [CallPutState k v]"
  "writes [CallDelState k] = [CallDelState k]"
  by (simp_all add: writes_def)

lemma GetAccount_frame [simp]:
  "storageMaps (snd (GetAccount lb s a w)) = storageMaps w"
  "accountMaps (snd (GetAccount lb s a w)) = accountMaps w"
  "managers (snd (GetAccount lb s a w)) = managers w"
  "nextRef (snd (GetAccount lb s a w)) = nextRef w"
  "writes (calls (snd (GetAccount lb s a w))) = writes (calls w)"
  by (simp_all add: GetAccount_def split_def Let_def split: option.split)

lemma GetAccount_calls:
  "calls (snd (GetAccount lb s a w)) =
     (if accountMaps w (accountCache (managers w s)) (Address_String a) = None
      then calls w @ [CallGetState (Address_String a)] else calls w)"
  by (simp add: GetAccount_def split_def Let_def split: option.split)

lemma GetAccount_frame_from:
  assumes "GetAccount lb s a w = (r, w1)"
  shows "storageMaps w1 = storageMaps w" "accountMaps w1 = accountMaps w"
    "managers w1 = managers w" "nextRef w1 = nextRef w" "writes (calls w1) = writes (calls w)"
  using GetAccount_frame [of lb s a w] by (simp_all add: assms)

lemma Error_GetAccount:
  assumes "GetAccount lb s a w = (r, w1)"
  shows "Error st w1 = Error st w"
  using GetAccount_frame_from(3) [OF assms] by (simp add: Error_def)

lemma account_Some:
  "GetAccount lb st a w = ((Some acc, None), w1) \<Longrightarrow> account lb st a w = (Some acc, w1)"
  by (simp add: account_def)

lemma mustAccount_Some:
  "GetAccount lb st a w = ((Some acc, None), w1) \<Longrightarrow> mustAccount lb st a w = (Some acc, w1)"
  by (simp add: mustAccount_def account_Some)

lemma account_None:
  "GetAccount lb st a w = ((None, None), w1) \<Longrightarrow> account lb st a w = (None, w1)"
  by (simp add: account_def)

lemma mustAccount_None:
  "GetAccount lb st a w = ((None, None), w1) \<Longrightarrow>
   mustAccount lb st a w =
     (None, PushError st (Some (ErrorCodef ErrorCodeIllegalWrite
        ''attempted to modify non-existent account: %v'' [ArgAddress a])) w1)"
  by (simp add: mustAccount_def account_None)

lemma updateAccount_frame:
  assumes "snd (Marshal lb acc) = None"
  shows "accountMaps (updateAccount lb st acc w) =
           (accountMaps w)(accountCache (managers w st) :=
              (accountMaps w (accountCache (managers w st)))
                (Address_String (Address acc) \<mapsto> fst (Marshal lb acc)))"
    "storageMaps (updateAccount lb st acc w) = storageMaps w"
    "calls (updateAccount lb st acc w) =
       calls w @ [CallPutState (Address_String (Address acc)) (fst (Marshal lb acc))]"
  using assms by (simp_all add: updateAccount_def split_def Let_def)

lemma Exists_frame [simp]:
  "storageMaps (snd (Exists lb st a w)) = storageMaps w"
  "accountMaps (snd (Exists lb st a w)) = accountMaps w"
  "writes (calls (snd (Exists lb st a w))) = writes (calls w)"
  "accountCache (managers (snd (Exists lb st a w)) st) = accountCache (managers w st)"
  using latch_Exists [of st w lb a]
  by (simp_all add: Exists_def split_def Let_def latch_step_def)

lemma Exists_True_managers:
  "fst (Exists lb st a w) \<Longrightarrow> managers (snd (Exists lb st a w)) = managers w"
  by (simp add: Exists_def split_def Let_def split: if_splits)

lemma Exists_iff: "fst (Exists lb st a w) \<longleftrightarrow> (\<exists>acc. fst (GetAccount lb st a w) = (Some acc, None))"
  by (cases "GetAccount lb st a w") (auto simp: Exists_def split: if_splits)


lemma GetAccount_absent:
  assumes "accountMaps w (accountCache (managers w st)) (Address_String address) = None"
      and "fst (GetState (stub (managers w st)) (Address_String address) (ledger w)) = ([], None)"
  shows "GetAccount lb st address w = ((None, None), snd (stub_GetState st (Address_String address) w))"
  using assms by (simp add: GetAccount_def split_def Let_def)

section \<open>More of the fixtures, evaluated\<close>

lemma GetAccount_worldWith123:
  "GetAccount testLib sm addr (worldWith account123)
     = ((Some account123, None), snd (GetAccount testLib sm addr (worldWith account123)))"
  by (rule prod_eqI)
     (simp_all add: GetAccount_def worldWith_def freshWorld_simps stub_GetState_def mockStub_def
        testLib_def testMarshal_def testUnmarshal_def account123_def Account_zero_def Let_def)

lemma calls_GetAccount_worldWith:
  "calls (snd (GetAccount testLib sm addr (worldWith a))) = [CallGetState (Address_String addr)]"
  by (simp add: GetAccount_calls worldWith_def freshWorld_simps)

lemma Error_worldWith: "Error sm (worldWith a) = None"
  by (simp add: Error_def worldWith_def freshWorld_simps)

lemma fst_GetAccount_fresh: "fst (GetAccount testLib sm addr (freshWorld Map.empty)) = (None, None)"
  by (simp add: GetAccount_def freshWorld_simps stub_GetState_def mockStub_def Let_def)

lemma Error_freshWorld: "Error sm (freshWorld g) = None"
  by (simp add: Error_def freshWorld_simps)

section \<open>Balance arithmetic\<close>

lemma IsUint64SumOverflow_iff: "IsUint64SumOverflow a b \<longleftrightarrow> 2 ^ 64 \<le> unat a + unat b"
proof -
  have "unat (- 1 - a) = unat (- 1 :: uint64) - unat a"
    by (rule unat_sub) simp
  moreover have "unat (- 1 :: uint64) = 2 ^ 64 - 1"
    by (simp add: unsigned_minus_1_eq_mask mask_eq_exp_minus_1)
  moreover have "unat a < 2 ^ 64"
    using unsigned_less [of a] by simp
  ultimately show ?thesis
    by (simp add: IsUint64SumOverflow_def word_less_nat_alt) arith
qed

lemma no_overflow_unat: "unat (a :: uint64) + unat b < 2 ^ 64 \<Longrightarrow> unat (a + b) = unat a + unat b"
  by (simp add: unat_word_ariths)

text \<open>
  Claim C4. Let \<^verbatim>\<open>GetAccount(address)\<close> find an account \<open>acc\<close> (and leave the world \<open>w1\<close>).
  If the sum of the balance and the amount does not fit 64 bits, \<^verbatim>\<open>AddToBalance\<close> pushes the
  integer-overflow error (which is latched unless an error is latched already: the first
  error wins), changes no cache and makes no call on the stub after the read of the account,
  so no write. If the sum fits, and the codec serialises the updated account, the new balance
  is the sum, the serialised account is in the account cache under the key of the account's
  own address, and the one call made after the read is \<^verbatim>\<open>PutState\<close> with that key and those
  bytes.
\<close>

theorem AddToBalance_overflow_or_persist:
  assumes "GetAccount lb st address w = ((Some acc, None), w1)"
  shows "(2 ^ 64 \<le> unat (Balance acc) + unat amount \<longrightarrow>
            map_option ErrCode (Error st (AddToBalance lb st address amount w))
              = Some (case Error st w of None \<Rightarrow> ErrorCodeIntegerOverflow | Some e \<Rightarrow> ErrCode e) \<and>
            accountMaps (AddToBalance lb st address amount w) = accountMaps w \<and>
            storageMaps (AddToBalance lb st address amount w) = storageMaps w \<and>
            calls (AddToBalance lb st address amount w) = calls w1 \<and>
            writes (calls (AddToBalance lb st address amount w)) = writes (calls w)) \<and>
         (unat (Balance acc) + unat amount < 2 ^ 64 \<longrightarrow>
            snd (Marshal lb (acc\<lparr>Balance := Balance acc + amount\<rparr>)) = None \<longrightarrow>
            unat (Balance acc + amount) = unat (Balance acc) + unat amount \<and>
            accountMaps (AddToBalance lb st address amount w) (accountCache (managers w st))
                (Address_String (Address acc))
              = Some (fst (Marshal lb (acc\<lparr>Balance := Balance acc + amount\<rparr>))) \<and>
            calls (AddToBalance lb st address amount w)
              = calls w1 @ [CallPutState (Address_String (Address acc))
                              (fst (Marshal lb (acc\<lparr>Balance := Balance acc + amount\<rparr>)))])"
proof -
  note fr = GetAccount_frame_from [OF assms] Error_GetAccount [OF assms]
  have m: "mustAccount lb st address w = (Some acc, w1)"
    by (rule mustAccount_Some [OF assms])
  have ov: "AddToBalance lb st address amount w =
      PushError st (Some (ErrorCodef ErrorCodeIntegerOverflow
         ''uint64 overflow: attempt to add %v to the balance of %s''
         [ArgUint64 amount, ArgAddress address])) w1"
    if "2 ^ 64 \<le> unat (Balance acc) + unat amount"
    using that by (simp add: AddToBalance_def m IsUint64SumOverflow_iff)
  have ok: "AddToBalance lb st address amount w =
      updateAccount lb st (acc\<lparr>Balance := Balance acc + amount\<rparr>) w1"
    if "unat (Balance acc) + unat amount < 2 ^ 64"
    using that by (simp add: AddToBalance_def m IsUint64SumOverflow_iff)
  show ?thesis
  proof (intro conjI impI)
    assume h: "2 ^ 64 \<le> unat (Balance acc) + unat amount"
    show "map_option ErrCode (Error st (AddToBalance lb st address amount w))
              = Some (case Error st w of None \<Rightarrow> ErrorCodeIntegerOverflow | Some e \<Rightarrow> ErrCode e)"
      by (simp only: ov [OF h] PushError_ErrCode fr)
    show "accountMaps (AddToBalance lb st address amount w) = accountMaps w"
      by (simp add: ov [OF h] fr)
    show "storageMaps (AddToBalance lb st address amount w) = storageMaps w"
      by (simp add: ov [OF h] fr)
    show "calls (AddToBalance lb st address amount w) = calls w1"
      by (simp add: ov [OF h])
    show "writes (calls (AddToBalance lb st address amount w)) = writes (calls w)"
      by (simp add: ov [OF h] fr)
  next
    assume h: "unat (Balance acc) + unat amount < 2 ^ 64"
      and mo: "snd (Marshal lb (acc\<lparr>Balance := Balance acc + amount\<rparr>)) = None"
    show "unat (Balance acc + amount) = unat (Balance acc) + unat amount"
      by (rule no_overflow_unat [OF h])
    show "accountMaps (AddToBalance lb st address amount w) (accountCache (managers w st))
                (Address_String (Address acc))
              = Some (fst (Marshal lb (acc\<lparr>Balance := Balance acc + amount\<rparr>)))"
      by (simp add: ok [OF h] updateAccount_frame [OF mo] fr)
    show "calls (AddToBalance lb st address amount w)
              = calls w1 @ [CallPutState (Address_String (Address acc))
                              (fst (Marshal lb (acc\<lparr>Balance := Balance acc + amount\<rparr>)))]"
      by (simp add: ok [OF h] updateAccount_frame [OF mo])
  qed
qed

theorem AddToBalance_overflow_or_persist_witness:
  "GetAccount testLib sm addr (worldWith account123)
     = ((Some account123, None), snd (GetAccount testLib sm addr (worldWith account123))) \<and>
   map_option ErrCode (Error sm (AddToBalance testLib sm addr (- 1) (worldWith account123)))
     = Some ErrorCodeIntegerOverflow \<and>
   writes (calls (AddToBalance testLib sm addr (- 1) (worldWith account123))) = [] \<and>
   calls (AddToBalance testLib sm addr 102345 (worldWith account123))
     = [CallGetState (Address_String addr), CallPutState (Address_String addr) [1, 68, 0]]"
proof -
  note g = GetAccount_worldWith123
  have b: "Balance account123 = 123" "Address account123 = addr"
    by (simp_all add: account123_def)
  have h1: "2 ^ 64 \<le> unat (Balance account123) + unat (- 1 :: uint64)"
    by (simp add: b unsigned_minus_1_eq_mask mask_eq_exp_minus_1)
  have h2: "unat (Balance account123) + unat (102345 :: uint64) < 2 ^ 64"
    by (simp add: b)
  have m: "Marshal testLib (account123\<lparr>Balance := Balance account123 + 102345\<rparr>) = ([1, 68, 0], None)"
    by (simp add: testLib_def testMarshal_def account123_def Account_zero_def)
  have h3: "snd (Marshal testLib (account123\<lparr>Balance := Balance account123 + 102345\<rparr>)) = None"
    by (simp add: m)
  have m2: "fst (Marshal testLib (account123\<lparr>Balance := 102468\<rparr>)) = [1, 68, 0]"
    using m by (simp add: b)
  have c0: "writes (calls (worldWith account123)) = []"
    by (simp add: worldWith_def freshWorld_simps writes_def)
  show ?thesis
    using g AddToBalance_overflow_or_persist [OF g, THEN conjunct1, rule_format, OF h1]
      AddToBalance_overflow_or_persist [OF g, THEN conjunct2, rule_format, OF h2 h3]
    by (simp add: b m2 c0 Error_worldWith calls_GetAccount_worldWith)
qed

text \<open>
  Claim C5. Let \<^verbatim>\<open>GetAccount(address)\<close> find an account \<open>acc\<close>. If the amount is greater than
  the balance, \<^verbatim>\<open>SubtractFromBalance\<close> pushes the insufficient-balance error (latched unless
  an error is latched already), changes no cache and makes no call on the stub after the read
  of the account. Otherwise, if the codec serialises the updated account, the new balance is
  the difference, the serialised account is in the account cache and the one call made after
  the read is \<^verbatim>\<open>PutState\<close> with the same key and bytes.
\<close>

theorem SubtractFromBalance_insufficient_or_persist:
  assumes "GetAccount lb st address w = ((Some acc, None), w1)"
  shows "(Balance acc < amount \<longrightarrow>
            map_option ErrCode (Error st (SubtractFromBalance lb st address amount w))
              = Some (case Error st w of None \<Rightarrow> ErrorCodeInsufficientBalance | Some e \<Rightarrow> ErrCode e) \<and>
            accountMaps (SubtractFromBalance lb st address amount w) = accountMaps w \<and>
            storageMaps (SubtractFromBalance lb st address amount w) = storageMaps w \<and>
            calls (SubtractFromBalance lb st address amount w) = calls w1 \<and>
            writes (calls (SubtractFromBalance lb st address amount w)) = writes (calls w)) \<and>
         (amount \<le> Balance acc \<longrightarrow>
            snd (Marshal lb (acc\<lparr>Balance := Balance acc - amount\<rparr>)) = None \<longrightarrow>
            unat (Balance acc - amount) = unat (Balance acc) - unat amount \<and>
            accountMaps (SubtractFromBalance lb st address amount w) (accountCache (managers w st))
                (Address_String (Address acc))
              = Some (fst (Marshal lb (acc\<lparr>Balance := Balance acc - amount\<rparr>))) \<and>
            calls (SubtractFromBalance lb st address amount w)
              = calls w1 @ [CallPutState (Address_String (Address acc))
                              (fst (Marshal lb (acc\<lparr>Balance := Balance acc - amount\<rparr>)))])"
proof -
  note fr = GetAccount_frame_from [OF assms] Error_GetAccount [OF assms]
  have m: "mustAccount lb st address w = (Some acc, w1)"
    by (rule mustAccount_Some [OF assms])
  have insufficient: "SubtractFromBalance lb st address amount w =
      PushError st (Some (ErrorCodef ErrorCodeInsufficientBalance
         ''insufficient funds: attempt to subtract %v from the balance of %s''
         [ArgUint64 amount, ArgAddress (Address acc)])) w1"
    if "Balance acc < amount"
    using that by (simp add: SubtractFromBalance_def m)
  have ok: "SubtractFromBalance lb st address amount w =
      updateAccount lb st (acc\<lparr>Balance := Balance acc - amount\<rparr>) w1"
    if "amount \<le> Balance acc"
    using that by (simp add: SubtractFromBalance_def m not_less [symmetric])
  show ?thesis
  proof (intro conjI impI)
    assume h: "Balance acc < amount"
    show "map_option ErrCode (Error st (SubtractFromBalance lb st address amount w))
              = Some (case Error st w of None \<Rightarrow> ErrorCodeInsufficientBalance | Some e \<Rightarrow> ErrCode e)"
      by (simp only: insufficient [OF h] PushError_ErrCode fr)
    show "accountMaps (SubtractFromBalance lb st address amount w) = accountMaps w"
      by (simp add: insufficient [OF h] fr)
    show "storageMaps (SubtractFromBalance lb st address amount w) = storageMaps w"
      by (simp add: insufficient [OF h] fr)
    show "calls (SubtractFromBalance lb st address amount w) = calls w1"
      by (simp add: insufficient [OF h])
    show "writes (calls (SubtractFromBalance lb st address amount w)) = writes (calls w)"
      by (simp add: insufficient [OF h] fr)
  next
    assume h: "amount \<le> Balance acc"
      and mo: "snd (Marshal lb (acc\<lparr>Balance := Balance acc - amount\<rparr>)) = None"
    show "unat (Balance acc - amount) = unat (Balance acc) - unat amount"
      by (rule unat_sub [OF h])
    show "accountMaps (SubtractFromBalance lb st address amount w) (accountCache (managers w st))
                (Address_String (Address acc))
              = Some (fst (Marshal lb (acc\<lparr>Balance := Balance acc - amount\<rparr>)))"
      by (simp add: ok [OF h] updateAccount_frame [OF mo] fr)
    show "calls (SubtractFromBalance lb st address amount w)
              = calls w1 @ [CallPutState (Address_String (Address acc))
                              (fst (Marshal lb (acc\<lparr>Balance := Balance acc - amount\<rparr>)))]"
      by (simp add: ok [OF h] updateAccount_frame [OF mo])
  qed
qed

theorem SubtractFromBalance_insufficient_or_persist_witness:
  "GetAccount testLib sm addr (worldWith account123)
     = ((Some account123, None), snd (GetAccount testLib sm addr (worldWith account123))) \<and>
   map_option ErrCode (Error sm (SubtractFromBalance testLib sm addr 200 (worldWith account123)))
     = Some ErrorCodeInsufficientBalance \<and>
   writes (calls (SubtractFromBalance testLib sm addr 200 (worldWith account123))) = [] \<and>
   calls (SubtractFromBalance testLib sm addr 1 (worldWith account123))
     = [CallGetState (Address_String addr), CallPutState (Address_String addr) [1, 122, 0]]"
proof -
  note g = GetAccount_worldWith123
  have b: "Balance account123 = 123" "Address account123 = addr"
    by (simp_all add: account123_def)
  have h1: "Balance account123 < 200"
    by (simp add: b)
  have h2: "1 \<le> Balance account123"
    by (simp add: b)
  have m: "Marshal testLib (account123\<lparr>Balance := Balance account123 - 1\<rparr>) = ([1, 122, 0], None)"
    by (simp add: testLib_def testMarshal_def account123_def Account_zero_def)
  have h3: "snd (Marshal testLib (account123\<lparr>Balance := Balance account123 - 1\<rparr>)) = None"
    by (simp add: m)
  have c0: "writes (calls (worldWith account123)) = []"
    by (simp add: worldWith_def freshWorld_simps writes_def)
  show ?thesis
    using g SubtractFromBalance_insufficient_or_persist [OF g, THEN conjunct1, rule_format, OF h1]
      SubtractFromBalance_insufficient_or_persist [OF g, THEN conjunct2, rule_format, OF h2 h3]
    by (simp add: m c0 Error_worldWith calls_GetAccount_worldWith b(2))
qed

section \<open>Account lifecycle\<close>

text \<open>
  Claim C8. If \<^verbatim>\<open>Exists(address)\<close> is true, \<^verbatim>\<open>CreateAccount\<close> pushes the duplicate-address
  error (latched unless an error is latched already), changes no cache and issues no write.
  If it is false, and the codec serialises the new account, the account written has the
  given address, balance 0, no code, sequence 0 and the permissions
  \<^verbatim>\<open>Call | Send\<close> (as \<^verbatim>\<open>Perms\<close> and as \<^verbatim>\<open>SetBit\<close>) with no role; its serialised form is in the
  account cache under the key of the address, and the one write issued is \<^verbatim>\<open>PutState\<close> with
  that key and those bytes.
\<close>

theorem CreateAccount_duplicate_or_fresh:
  "(fst (Exists lb st address w) \<longrightarrow>
      map_option ErrCode (Error st (CreateAccount lb st address w))
        = Some (case Error st w of None \<Rightarrow> ErrorCodeDuplicateAddress | Some e \<Rightarrow> ErrCode e) \<and>
      accountMaps (CreateAccount lb st address w) = accountMaps w \<and>
      storageMaps (CreateAccount lb st address w) = storageMaps w \<and>
      writes (calls (CreateAccount lb st address w)) = writes (calls w)) \<and>
   (\<not> fst (Exists lb st address w) \<longrightarrow>
      snd (Marshal lb \<lparr>Address = address, PublicKey = \<lparr>CurveType = 0, KeyBytes = []\<rparr>,
                        Sequence = 0, Balance = 0, Code = [],
                        Permissions = \<lparr>Base = \<lparr>Perms = permission_Call OR permission_Send,
                                                  SetBit = permission_Call OR permission_Send\<rparr>,
                                        Roles = []\<rparr>\<rparr>) = None \<longrightarrow>
      accountMaps (CreateAccount lb st address w) (accountCache (managers w st))
          (Address_String address)
        = Some (fst (Marshal lb \<lparr>Address = address, PublicKey = \<lparr>CurveType = 0, KeyBytes = []\<rparr>,
                        Sequence = 0, Balance = 0, Code = [],
                        Permissions = \<lparr>Base = \<lparr>Perms = permission_Call OR permission_Send,
                                                  SetBit = permission_Call OR permission_Send\<rparr>,
                                        Roles = []\<rparr>\<rparr>)) \<and>
      writes (calls (CreateAccount lb st address w))
        = writes (calls w) @ [CallPutState (Address_String address)
             (fst (Marshal lb \<lparr>Address = address, PublicKey = \<lparr>CurveType = 0, KeyBytes = []\<rparr>,
                        Sequence = 0, Balance = 0, Code = [],
                        Permissions = \<lparr>Base = \<lparr>Perms = permission_Call OR permission_Send,
                                                  SetBit = permission_Call OR permission_Send\<rparr>,
                                        Roles = []\<rparr>\<rparr>))])"
proof -
  let ?fresh = "\<lparr>Address = address, PublicKey = \<lparr>CurveType = 0, KeyBytes = []\<rparr>,
                        Sequence = 0, Balance = 0, Code = [],
                        Permissions = \<lparr>Base = \<lparr>Perms = permission_Call OR permission_Send,
                                                  SetBit = permission_Call OR permission_Send\<rparr>,
                                        Roles = []\<rparr>\<rparr>"
  let ?w1 = "snd (Exists lb st address w)"
  let ?w2 = "snd (GetAccount lb st address ?w1)"
  have fresh: "Account_zero\<lparr>Address := address, Permissions := ContractPerms\<rparr> = ?fresh"
    by (simp add: Account_zero_def ContractPerms_def ContractPermFlags_def)
  have dup: "CreateAccount lb st address w =
      PushError st (Some (ErrorCodef ErrorCodeDuplicateAddress
         ''tried to create an account at an address that already exists: %v %v''
         [ArgAddress address, ArgAccount (fst (fst (GetAccount lb st address ?w1)))])) ?w2"
    if "fst (Exists lb st address w)"
    using that by (simp add: CreateAccount_def split_def Let_def)
  have new: "CreateAccount lb st address w = updateAccount lb st ?fresh ?w1"
    if "\<not> fst (Exists lb st address w)"
    using that by (simp add: CreateAccount_def split_def Let_def fresh)
  show ?thesis
  proof (intro conjI impI)
    assume h: "fst (Exists lb st address w)"
    have e: "Error st ?w2 = Error st w"
      by (simp add: Error_def Exists_True_managers [OF h])
    show "map_option ErrCode (Error st (CreateAccount lb st address w))
        = Some (case Error st w of None \<Rightarrow> ErrorCodeDuplicateAddress | Some e \<Rightarrow> ErrCode e)"
      by (simp only: dup [OF h] PushError_ErrCode e)
    show "accountMaps (CreateAccount lb st address w) = accountMaps w"
      by (simp add: dup [OF h])
    show "storageMaps (CreateAccount lb st address w) = storageMaps w"
      by (simp add: dup [OF h])
    show "writes (calls (CreateAccount lb st address w)) = writes (calls w)"
      by (simp add: dup [OF h])
  next
    assume h: "\<not> fst (Exists lb st address w)" and mo: "snd (Marshal lb ?fresh) = None"
    show "accountMaps (CreateAccount lb st address w) (accountCache (managers w st))
          (Address_String address) = Some (fst (Marshal lb ?fresh))"
      by (simp add: new [OF h] updateAccount_frame [OF mo])
    show "writes (calls (CreateAccount lb st address w))
        = writes (calls w) @ [CallPutState (Address_String address) (fst (Marshal lb ?fresh))]"
      by (simp add: new [OF h] updateAccount_frame [OF mo])
  qed
qed

theorem CreateAccount_duplicate_or_fresh_witness:
  "fst (Exists testLib sm addr (worldWith account123)) \<and>
   map_option ErrCode (Error sm (CreateAccount testLib sm addr (worldWith account123)))
     = Some ErrorCodeDuplicateAddress \<and>
   writes (calls (CreateAccount testLib sm addr (worldWith account123))) = [] \<and>
   \<not> fst (Exists testLib sm addr (freshWorld Map.empty)) \<and>
   accountMaps (CreateAccount testLib sm addr (freshWorld Map.empty)) 0 (Address_String addr)
     = Some [1, 0, 0] \<and>
   writes (calls (CreateAccount testLib sm addr (freshWorld Map.empty)))
     = [CallPutState (Address_String addr) [1, 0, 0]]"
proof -
  have h1: "fst (Exists testLib sm addr (worldWith account123))"
    using arg_cong [OF GetAccount_worldWith123, of fst] by (simp add: Exists_iff)
  have h2: "\<not> fst (Exists testLib sm addr (freshWorld Map.empty))"
    by (simp add: Exists_iff fst_GetAccount_fresh)
  have m: "Marshal testLib \<lparr>Address = addr, PublicKey = \<lparr>CurveType = 0, KeyBytes = []\<rparr>,
                        Sequence = 0, Balance = 0, Code = [],
                        Permissions = \<lparr>Base = \<lparr>Perms = permission_Call OR permission_Send,
                                                  SetBit = permission_Call OR permission_Send\<rparr>,
                                        Roles = []\<rparr>\<rparr> = ([1, 0, 0], None)"
    by (simp add: testLib_def testMarshal_def)
  have h3: "snd (Marshal testLib \<lparr>Address = addr, PublicKey = \<lparr>CurveType = 0, KeyBytes = []\<rparr>,
                        Sequence = 0, Balance = 0, Code = [],
                        Permissions = \<lparr>Base = \<lparr>Perms = permission_Call OR permission_Send,
                                                  SetBit = permission_Call OR permission_Send\<rparr>,
                                        Roles = []\<rparr>\<rparr>) = None"
    by (simp add: m)
  have c0: "writes (calls (worldWith account123)) = []" "writes (calls (freshWorld Map.empty)) = []"
    by (simp_all add: worldWith_def freshWorld_simps writes_def)
  show ?thesis
    using h1 h2 CreateAccount_duplicate_or_fresh [of testLib sm addr "worldWith account123", THEN conjunct1, rule_format, OF h1]
      CreateAccount_duplicate_or_fresh [of testLib sm addr "freshWorld Map.empty", THEN conjunct2, rule_format, OF h2 h3]
    by (simp add: m c0 Error_worldWith freshWorld_simps)
qed

text \<open>
  Claim C9. If the account cache has no entry for the address and the stub's read succeeds
  with no bytes, then \<^verbatim>\<open>Exists\<close> is false, \<^verbatim>\<open>GetBalance\<close> is 0, \<^verbatim>\<open>GetCode\<close> is empty,
  \<^verbatim>\<open>GetSequence\<close> is 0, and none of these calls changes the error of the state manager.
\<close>

theorem absent_account_reads_zero:
  assumes "accountMaps w (accountCache (managers w st)) (Address_String address) = None"
      and "fst (GetState (stub (managers w st)) (Address_String address) (ledger w)) = ([], None)"
  shows "fst (Exists lb st address w) = False \<and>
         fst (GetBalance lb st address w) = 0 \<and>
         fst (GetCode lb st address w) = [] \<and>
         fst (GetSequence lb st address w) = 0 \<and>
         Error st (snd (Exists lb st address w)) = Error st w \<and>
         Error st (snd (GetBalance lb st address w)) = Error st w \<and>
         Error st (snd (GetCode lb st address w)) = Error st w \<and>
         Error st (snd (GetSequence lb st address w)) = Error st w"
proof -
  note g = GetAccount_absent [OF assms, of lb]
  have a: "account lb st address w = (None, snd (stub_GetState st (Address_String address) w))"
    by (rule account_None [OF g])
  show ?thesis
    by (simp add: Exists_def GetBalance_def GetCode_def GetSequence_def g a Error_def)
qed

theorem absent_account_reads_zero_witness:
  "accountMaps (freshWorld Map.empty) (accountCache (managers (freshWorld Map.empty) sm))
     (Address_String addr) = None \<and>
   fst (GetState (stub (managers (freshWorld Map.empty) sm)) (Address_String addr)
         (ledger (freshWorld Map.empty))) = ([], None) \<and>
   fst (Exists testLib sm addr (freshWorld Map.empty)) = False \<and>
   fst (GetBalance testLib sm addr (freshWorld Map.empty)) = 0 \<and>
   fst (GetCode testLib sm addr (freshWorld Map.empty)) = [] \<and>
   fst (GetSequence testLib sm addr (freshWorld Map.empty)) = 0 \<and>
   Error sm (snd (Exists testLib sm addr (freshWorld Map.empty))) = None \<and>
   Error sm (snd (GetBalance testLib sm addr (freshWorld Map.empty))) = None \<and>
   Error sm (snd (GetCode testLib sm addr (freshWorld Map.empty))) = None \<and>
   Error sm (snd (GetSequence testLib sm addr (freshWorld Map.empty))) = None"
proof -
  have h1: "accountMaps (freshWorld Map.empty) (accountCache (managers (freshWorld Map.empty) sm))
     (Address_String addr) = None"
    by (simp add: freshWorld_simps)
  have h2: "fst (GetState (stub (managers (freshWorld Map.empty) sm)) (Address_String addr)
         (ledger (freshWorld Map.empty))) = ([], None)"
    by (simp add: freshWorld_simps mockStub_def)
  show ?thesis
    using h1 h2 absent_account_reads_zero [OF h1 h2, of testLib]
    by (simp add: Error_freshWorld)
qed

section \<open>Code initialisation\<close>

lemma InitCode_absent:
  assumes "GetAccount lb st address w = ((None, None), w1)" and "Error st w = None"
  shows "map_option ErrCode (Error st (InitCode lb st address code w)) = Some ErrorCodeIllegalWrite"
    "accountMaps (InitCode lb st address code w) = accountMaps w"
    "storageMaps (InitCode lb st address code w) = storageMaps w"
    "writes (calls (InitCode lb st address code w)) = writes (calls w)"
proof -
  note fr = GetAccount_frame_from [OF assms(1)] Error_GetAccount [OF assms(1)]
  let ?w2 = "PushError st (Some (ErrorCodef ErrorCodeIllegalWrite
        ''attempted to modify non-existent account: %v'' [ArgAddress address])) w1"
  have i: "InitCode lb st address code w =
      PushError st (Some (ErrorCodef ErrorCodeInvalidAddress
        ''tried to initialise code for an account that does not exist: %v'' [ArgAddress address])) ?w2"
    by (simp add: InitCode_def mustAccount_None [OF assms(1)])
  have e2: "map_option ErrCode (Error st ?w2) = Some ErrorCodeIllegalWrite"
    by (simp only: PushError_ErrCode fr assms(2) option.case)
  then obtain e where e: "Error st ?w2 = Some e" "ErrCode e = ErrorCodeIllegalWrite"
    by auto
  show "map_option ErrCode (Error st (InitCode lb st address code w)) = Some ErrorCodeIllegalWrite"
    by (simp add: i PushError_latched [OF e(1)] e)
  show "accountMaps (InitCode lb st address code w) = accountMaps w"
    by (simp add: i fr)
  show "storageMaps (InitCode lb st address code w) = storageMaps w"
    by (simp add: i fr)
  show "writes (calls (InitCode lb st address code w)) = writes (calls w)"
    by (simp add: i fr)
qed

text \<open>
  Claim C3, evaluated on the state of the test suite: a new state manager, a ledger with
  nothing under the address. \<^verbatim>\<open>InitCode\<close> leaves the error code \<^verbatim>\<open>IllegalWrite\<close> latched, not
  \<^verbatim>\<open>InvalidAddress\<close>: \<^verbatim>\<open>mustAccount\<close> has pushed \<^verbatim>\<open>IllegalWrite\<close> before \<^verbatim>\<open>InitCode\<close> pushes
  \<^verbatim>\<open>InvalidAddress\<close>, and the first error wins.
\<close>

theorem InitCode_missing_account_latches_IllegalWrite:
  "Error sm (freshWorld Map.empty) = None \<and>
   fst (GetAccount testLib sm addr (freshWorld Map.empty)) = (None, None) \<and>
   map_option ErrCode (Error sm (InitCode testLib sm addr [96, 96] (freshWorld Map.empty)))
     = Some ErrorCodeIllegalWrite \<and>
   map_option ErrCode (Error sm (InitCode testLib sm addr [96, 96] (freshWorld Map.empty)))
     \<noteq> Some ErrorCodeInvalidAddress"
proof -
  have g: "GetAccount testLib sm addr (freshWorld Map.empty)
      = ((None, None), snd (GetAccount testLib sm addr (freshWorld Map.empty)))"
    by (rule prod_eqI) (simp_all add: fst_GetAccount_fresh)
  show ?thesis
    using InitCode_absent(1) [OF g Error_freshWorld, of "[96, 96]"]
    by (auto simp add: Error_freshWorld fst_GetAccount_fresh)
qed

lemma GetAccount_cached:
  assumes "accountMaps w (accountCache (managers w s)) (Address_String a) = Some bs"
    and "bs \<noteq> []"
    and "Unmarshal lb (Account_zero\<lparr>Address := a\<rparr>) bs = (acc, None)"
  shows "GetAccount lb s a w = ((Some acc, None), w)"
  using assms by (simp add: GetAccount_def Let_def)

lemma PushError_accountCache [simp]:
  "accountCache (managers (PushError st err w) x) = accountCache (managers w x)"
  by (simp add: PushError_def split: option.split)

lemma updateAccount_ok:
  assumes "Marshal lb acc = (bs, None)"
    and "fst (PutState (stub (managers w st)) (Address_String (Address acc)) bs (ledger w)) = None"
  shows "managers (updateAccount lb st acc w) = managers w"
    "accountMaps (updateAccount lb st acc w) (accountCache (managers w st))
       (Address_String (Address acc)) = Some bs"
    "calls (updateAccount lb st acc w) = calls w @ [CallPutState (Address_String (Address acc)) bs]"
  using assms by (simp_all add: updateAccount_def split_def Let_def)

text \<open>
  Claim C7. Let \<^verbatim>\<open>GetAccount(A)\<close> find an account stored under its own address, with no
  code; let the codec serialise the account with the non-empty code \<open>C\<close> to non-empty
  bytes that decode to the same account, and let the stub accept the write. Then
  \<^verbatim>\<open>InitCode(A, C)\<close> leaves the error as it was, puts the serialised account into the account
  cache and issues one \<^verbatim>\<open>PutState\<close> with it. A second \<^verbatim>\<open>InitCode(A, C2)\<close> pushes
  \<^verbatim>\<open>IllegalWrite\<close> (latched unless an error was latched before the two calls), changes no
  cache, makes no call on the stub, and \<^verbatim>\<open>GetCode(A)\<close> still returns \<open>C\<close>.
\<close>

theorem InitCode_write_once:
  assumes g: "GetAccount lb st A w = ((Some acc, None), w1)"
    and adr: "Address acc = A"
    and empty: "Code acc = []"
    and code: "C \<noteq> []"
    and m: "Marshal lb (acc\<lparr>Code := C\<rparr>) = (bs, None)"
    and bs: "bs \<noteq> []"
    and u: "Unmarshal lb (Account_zero\<lparr>Address := A\<rparr>) bs = (acc\<lparr>Code := C\<rparr>, None)"
    and p: "fst (PutState (stub (managers w st)) (Address_String A) bs (ledger w1)) = None"
  shows "Error st (InitCode lb st A C w) = Error st w \<and>
         accountMaps (InitCode lb st A C w) (accountCache (managers w st)) (Address_String A) = Some bs \<and>
         calls (InitCode lb st A C w) = calls w1 @ [CallPutState (Address_String A) bs] \<and>
         map_option ErrCode (Error st (InitCode lb st A C2 (InitCode lb st A C w)))
           = Some (case Error st w of None \<Rightarrow> ErrorCodeIllegalWrite | Some e \<Rightarrow> ErrCode e) \<and>
         accountMaps (InitCode lb st A C2 (InitCode lb st A C w)) = accountMaps (InitCode lb st A C w) \<and>
         calls (InitCode lb st A C2 (InitCode lb st A C w)) = calls (InitCode lb st A C w) \<and>
         fst (GetCode lb st A (InitCode lb st A C2 (InitCode lb st A C w))) = C"
proof -
  let ?W1 = "InitCode lb st A C w"
  let ?W2 = "InitCode lb st A C2 ?W1"
  let ?acc = "acc\<lparr>Code := C\<rparr>"
  note fr = GetAccount_frame_from [OF g]
  have a: "Address ?acc = A" by (simp add: adr)
  have p1: "fst (PutState (stub (managers w1 st)) (Address_String (Address ?acc)) bs (ledger w1)) = None"
    using p by (simp add: fr a)
  have W1: "?W1 = updateAccount lb st ?acc w1"
    by (simp add: InitCode_def mustAccount_Some [OF g] empty)
  note up = updateAccount_ok [OF m p1]
  have man1: "managers ?W1 = managers w"
    by (simp add: W1 up fr)
  have e1: "Error st ?W1 = Error st w"
    by (simp add: Error_def man1)
  have c0: "accountMaps ?W1 (accountCache (managers w st)) (Address_String A) = Some bs"
    using up(2) by (simp add: W1 fr a)
  have c1: "accountMaps ?W1 (accountCache (managers ?W1 st)) (Address_String A) = Some bs"
    using c0 by (simp only: man1)
  have g1: "GetAccount lb st A ?W1 = ((Some ?acc, None), ?W1)"
    by (rule GetAccount_cached [OF c1 bs u])
  have W2: "?W2 = PushError st (Some (ErrorCodef ErrorCodeIllegalWrite
                 ''tried to initialise code for a contract that already exists: %v existing code %v''
                 [ArgAddress A, ArgBytes C])) ?W1"
    using code by (simp add: InitCode_def [of lb st A C2] mustAccount_Some [OF g1])
  have e2: "map_option ErrCode (Error st ?W2)
      = Some (case Error st w of None \<Rightarrow> ErrorCodeIllegalWrite | Some e \<Rightarrow> ErrCode e)"
    by (simp only: W2 PushError_ErrCode e1)
  have c2: "accountMaps ?W2 (accountCache (managers ?W2 st)) (Address_String A) = Some bs"
    using c1 by (simp add: W2)
  have g2: "GetAccount lb st A ?W2 = ((Some ?acc, None), ?W2)"
    by (rule GetAccount_cached [OF c2 bs u])
  have code2: "fst (GetCode lb st A ?W2) = C"
    by (simp add: GetCode_def account_Some [OF g2])
  show ?thesis
  proof (intro conjI)
    show "Error st ?W1 = Error st w" by (rule e1)
    show "accountMaps ?W1 (accountCache (managers w st)) (Address_String A) = Some bs"
      by (rule c0)
    show "calls ?W1 = calls w1 @ [CallPutState (Address_String A) bs]"
      using up(3) by (simp add: W1 a)
    show "map_option ErrCode (Error st ?W2)
      = Some (case Error st w of None \<Rightarrow> ErrorCodeIllegalWrite | Some e \<Rightarrow> ErrCode e)"
      by (rule e2)
    show "accountMaps ?W2 = accountMaps ?W1" by (simp add: W2)
    show "calls ?W2 = calls ?W1" by (simp add: W2)
    show "fst (GetCode lb st A ?W2) = C" by (rule code2)
  qed
qed

theorem InitCode_write_once_witness:
  "GetAccount testLib sm addr (worldWith account123)
     = ((Some account123, None), snd (GetAccount testLib sm addr (worldWith account123))) \<and>
   Code account123 = [] \<and>
   Marshal testLib (account123\<lparr>Code := [96, 96]\<rparr>) = ([1, 123, 0, 96, 96], None) \<and>
   Unmarshal testLib (Account_zero\<lparr>Address := addr\<rparr>) [1, 123, 0, 96, 96]
     = (account123\<lparr>Code := [96, 96]\<rparr>, None) \<and>
   Error sm (InitCode testLib sm addr [96, 96] (worldWith account123)) = None \<and>
   calls (InitCode testLib sm addr [96, 96] (worldWith account123))
     = [CallGetState (Address_String addr), CallPutState (Address_String addr) [1, 123, 0, 96, 96]] \<and>
   map_option ErrCode (Error sm (InitCode testLib sm addr [97]
       (InitCode testLib sm addr [96, 96] (worldWith account123)))) = Some ErrorCodeIllegalWrite \<and>
   fst (GetCode testLib sm addr (InitCode testLib sm addr [97]
       (InitCode testLib sm addr [96, 96] (worldWith account123)))) = [96, 96]"
proof -
  note g = GetAccount_worldWith123
  have adr: "Address account123 = addr" and empty: "Code account123 = []"
    by (simp_all add: account123_def Account_zero_def)
  have code: "[96, 96] \<noteq> ([] :: bytes)" by simp
  have m: "Marshal testLib (account123\<lparr>Code := [96, 96]\<rparr>) = ([1, 123, 0, 96, 96], None)"
    by (simp add: testLib_def testMarshal_def account123_def Account_zero_def)
  have bs: "[1, 123, 0, 96, 96] \<noteq> ([] :: bytes)" by simp
  have u: "Unmarshal testLib (Account_zero\<lparr>Address := addr\<rparr>) [1, 123, 0, 96, 96]
     = (account123\<lparr>Code := [96, 96]\<rparr>, None)"
    by (simp add: testLib_def testUnmarshal_def account123_def Account_zero_def)
  have p: "fst (PutState (stub (managers (worldWith account123) sm)) (Address_String addr)
       [1, 123, 0, 96, 96] (ledger (snd (GetAccount testLib sm addr (worldWith account123))))) = None"
    by (simp add: worldWith_def freshWorld_simps mockStub_def)
  show ?thesis
    using g empty m u
      InitCode_write_once [OF g adr empty code m bs u p, of "[97]"]
    by (simp add: calls_GetAccount_worldWith Error_worldWith)
qed

section \<open>Reads that miss the caches\<close>

lemma GetStorage_miss:
  assumes "storageMaps w (storageCache (managers w s)) (Address_String a @ hex_EncodeToString_Bytes k) = None"
  shows "fst (GetStorage s a k w) =
           (case GetState (stub (managers w s)) (Address_String a @ hex_EncodeToString_Bytes k) (ledger w) of
              ((val, err), l) \<Rightarrow> if err \<noteq> None then Some Zero256 else LeftPadWord256 val)"
    "calls (snd (GetStorage s a k w)) = calls w @ [CallGetState (Address_String a @ hex_EncodeToString_Bytes k)]"
    "storageMaps (snd (GetStorage s a k w)) = storageMaps w"
    "accountMaps (snd (GetStorage s a k w)) = accountMaps w"
    "storageCache (managers (snd (GetStorage s a k w)) s) = storageCache (managers w s)"
  using assms latch_GetStorage [of s w a k]
  by (simp_all add: GetStorage_def split_def Let_def latch_step_def)

lemma GetAccount_miss:
  assumes "accountMaps w (accountCache (managers w s)) (Address_String a) = None"
  shows "fst (GetAccount lb s a w) =
           (case GetState (stub (managers w s)) (Address_String a) (ledger w) of
              ((val, err), l) \<Rightarrow>
                if err \<noteq> None then (None, err)
                else if val = [] then (None, None)
                else (case Unmarshal lb (Account_zero\<lparr>Address := a\<rparr>) val of
                        (acct, err1) \<Rightarrow> if err1 \<noteq> None then (None, err1) else (Some acct, None)))"
    "calls (snd (GetAccount lb s a w)) = calls w @ [CallGetState (Address_String a)]"
  using assms
  by (simp_all add: GetAccount_def split_def Let_def)

lemma calls_fixture: "calls worldWithSlot = []" "calls worldWithAccount = []"
  by (simp_all add: worldWithSlot_def worldWithAccount_def worldWith_def freshWorld_simps)

lemma LeftPadWord256_5: "LeftPadWord256 [5] = Some 5"
  by (simp add: LeftPadWord256_def)

text \<open>
  Claim C2, as amended. When \<^verbatim>\<open>GetStorage\<close> misses the storage cache it makes one
  \<^verbatim>\<open>GetState\<close> call and returns what the stub returned, left-padded to 32 bytes (the zero
  word if the stub failed; with more than 32 bytes \<^verbatim>\<open>LeftPadWord256\<close> panics); when
  \<^verbatim>\<open>GetAccount\<close> misses the account cache it makes one \<^verbatim>\<open>GetState\<close> call and returns the
  decoded account (absent for an empty read). Neither stores anything in either cache, so
  the same read repeated at once misses again and makes a second \<^verbatim>\<open>GetState\<close> call.
\<close>

theorem read_miss_reads_through_uncached:
  "(storageMaps w (storageCache (managers w s)) (Address_String a @ hex_EncodeToString_Bytes k) = None \<longrightarrow>
      fst (GetStorage s a k w) =
        (case GetState (stub (managers w s)) (Address_String a @ hex_EncodeToString_Bytes k) (ledger w) of
           ((val, err), l) \<Rightarrow> if err \<noteq> None then Some Zero256 else LeftPadWord256 val) \<and>
      storageMaps (snd (GetStorage s a k w)) = storageMaps w \<and>
      accountMaps (snd (GetStorage s a k w)) = accountMaps w \<and>
      calls (snd (GetStorage s a k w))
        = calls w @ [CallGetState (Address_String a @ hex_EncodeToString_Bytes k)] \<and>
      calls (snd (GetStorage s a k (snd (GetStorage s a k w))))
        = calls w @ [CallGetState (Address_String a @ hex_EncodeToString_Bytes k),
                     CallGetState (Address_String a @ hex_EncodeToString_Bytes k)]) \<and>
   (accountMaps w (accountCache (managers w s)) (Address_String a) = None \<longrightarrow>
      fst (GetAccount lb s a w) =
        (case GetState (stub (managers w s)) (Address_String a) (ledger w) of
           ((val, err), l) \<Rightarrow>
             if err \<noteq> None then (None, err)
             else if val = [] then (None, None)
             else (case Unmarshal lb (Account_zero\<lparr>Address := a\<rparr>) val of
                     (acct, err1) \<Rightarrow> if err1 \<noteq> None then (None, err1) else (Some acct, None))) \<and>
      storageMaps (snd (GetAccount lb s a w)) = storageMaps w \<and>
      accountMaps (snd (GetAccount lb s a w)) = accountMaps w \<and>
      calls (snd (GetAccount lb s a w)) = calls w @ [CallGetState (Address_String a)] \<and>
      calls (snd (GetAccount lb s a (snd (GetAccount lb s a w))))
        = calls w @ [CallGetState (Address_String a), CallGetState (Address_String a)])"
proof (intro conjI impI)
  let ?K = "Address_String a @ hex_EncodeToString_Bytes k"
  assume miss: "storageMaps w (storageCache (managers w s)) ?K = None"
  note r = GetStorage_miss [OF miss]
  have miss1: "storageMaps (snd (GetStorage s a k w))
      (storageCache (managers (snd (GetStorage s a k w)) s)) ?K = None"
    using miss by (simp only: r)
  show "fst (GetStorage s a k w) =
        (case GetState (stub (managers w s)) ?K (ledger w) of
           ((val, err), l) \<Rightarrow> if err \<noteq> None then Some Zero256 else LeftPadWord256 val)"
    by (rule r)
  show "storageMaps (snd (GetStorage s a k w)) = storageMaps w" by (rule r)
  show "accountMaps (snd (GetStorage s a k w)) = accountMaps w" by (rule r)
  show "calls (snd (GetStorage s a k w)) = calls w @ [CallGetState ?K]" by (rule r)
  show "calls (snd (GetStorage s a k (snd (GetStorage s a k w))))
        = calls w @ [CallGetState ?K, CallGetState ?K]"
    by (simp add: GetStorage_miss(2) [OF miss1] r(2))
next
  let ?K = "Address_String a"
  assume miss: "accountMaps w (accountCache (managers w s)) ?K = None"
  note r = GetAccount_miss [OF miss, of lb]
  have miss1: "accountMaps (snd (GetAccount lb s a w))
      (accountCache (managers (snd (GetAccount lb s a w)) s)) ?K = None"
    using miss by simp
  show "fst (GetAccount lb s a w) =
        (case GetState (stub (managers w s)) (Address_String a) (ledger w) of
           ((val, err), l) \<Rightarrow>
             if err \<noteq> None then (None, err)
             else if val = [] then (None, None)
             else (case Unmarshal lb (Account_zero\<lparr>Address := a\<rparr>) val of
                     (acct, err1) \<Rightarrow> if err1 \<noteq> None then (None, err1) else (Some acct, None)))"
    by (rule r)
  show "storageMaps (snd (GetAccount lb s a w)) = storageMaps w" by simp
  show "accountMaps (snd (GetAccount lb s a w)) = accountMaps w" by simp
  show "calls (snd (GetAccount lb s a w)) = calls w @ [CallGetState ?K]" by (rule r)
  show "calls (snd (GetAccount lb s a (snd (GetAccount lb s a w))))
        = calls w @ [CallGetState ?K, CallGetState ?K]"
    by (simp add: GetAccount_miss(2) [OF miss1] r(2))
qed

theorem read_miss_reads_through_uncached_witness:
  "storageMaps worldWithSlot (storageCache (managers worldWithSlot sm))
      (Address_String addr @ hex_EncodeToString_Bytes 7) = None \<and>
   accountMaps worldWithAccount (accountCache (managers worldWithAccount sm)) (Address_String addr) = None \<and>
   storageMaps (snd (GetStorage sm addr 7 worldWithSlot)) = storageMaps worldWithSlot \<and>
   calls (snd (GetStorage sm addr 7 (snd (GetStorage sm addr 7 worldWithSlot))))
     = calls worldWithSlot @ [CallGetState (Address_String addr @ hex_EncodeToString_Bytes 7),
          CallGetState (Address_String addr @ hex_EncodeToString_Bytes 7)] \<and>
   accountMaps (snd (GetAccount testLib sm addr worldWithAccount)) = accountMaps worldWithAccount \<and>
   calls (snd (GetAccount testLib sm addr (snd (GetAccount testLib sm addr worldWithAccount))))
     = calls worldWithAccount @ [CallGetState (Address_String addr), CallGetState (Address_String addr)]"
proof -
  have m1: "storageMaps worldWithSlot (storageCache (managers worldWithSlot sm))
      (Address_String addr @ hex_EncodeToString_Bytes 7) = None"
    by (simp add: worldWithSlot_def freshWorld_simps)
  have a1: "accountMaps worldWithAccount (accountCache (managers worldWithAccount sm))
      (Address_String addr) = None"
    by (simp add: worldWithAccount_def worldWith_def freshWorld_simps)
  show ?thesis
    using m1 a1
      read_miss_reads_through_uncached [where w = worldWithSlot and s = sm and a = addr and k = 7 and lb = testLib,
        THEN conjunct1, rule_format, OF m1]
      read_miss_reads_through_uncached [where w = worldWithAccount and s = sm and a = addr and k = 7 and lb = testLib,
        THEN conjunct2, rule_format, OF a1]
    by simp
qed

text \<open>
  Claim C2 as stated fails on the state of the storage test: after the read of the slot
  the storage cache still has no entry for it, and the second read calls \<^verbatim>\<open>GetState\<close> again;
  the same for the account of \<^verbatim>\<open>addr\<close> and the account cache.
\<close>

theorem read_miss_not_cached_counterexample:
  "storageMaps worldWithSlot (storageCache (managers worldWithSlot sm)) storageKey7 = None \<and>
   fst (GetStorage sm addr 7 worldWithSlot) = Some 5 \<and>
   storageMaps (snd (GetStorage sm addr 7 worldWithSlot))
     (storageCache (managers (snd (GetStorage sm addr 7 worldWithSlot)) sm)) storageKey7 = None \<and>
   calls (snd (GetStorage sm addr 7 (snd (GetStorage sm addr 7 worldWithSlot))))
     = [CallGetState storageKey7, CallGetState storageKey7] \<and>
   accountMaps worldWithAccount (accountCache (managers worldWithAccount sm)) (Address_String addr) = None \<and>
   fst (GetAccount testLib sm addr worldWithAccount) = (Some account123, None) \<and>
   accountMaps (snd (GetAccount testLib sm addr worldWithAccount))
     (accountCache (managers (snd (GetAccount testLib sm addr worldWithAccount)) sm))
     (Address_String addr) = None \<and>
   calls (snd (GetAccount testLib sm addr (snd (GetAccount testLib sm addr worldWithAccount))))
     = [CallGetState (Address_String addr), CallGetState (Address_String addr)]"
proof -
  have m1: "storageMaps worldWithSlot (storageCache (managers worldWithSlot sm))
      (Address_String addr @ hex_EncodeToString_Bytes 7) = None"
    by (simp add: worldWithSlot_def freshWorld_simps)
  note r = GetStorage_miss [OF m1]
  have m2: "storageMaps (snd (GetStorage sm addr 7 worldWithSlot))
      (storageCache (managers (snd (GetStorage sm addr 7 worldWithSlot)) sm))
      (Address_String addr @ hex_EncodeToString_Bytes 7) = None"
    using m1 by (simp only: r)
  have g: "GetState (stub (managers worldWithSlot sm))
        (Address_String addr @ hex_EncodeToString_Bytes 7) (ledger worldWithSlot)
      = (([5], None), ledger worldWithSlot)"
    by (simp add: worldWithSlot_def freshWorld_simps mockStub_def storageKey7_def)
  have v: "fst (GetStorage sm addr 7 worldWithSlot) = Some 5"
    by (simp only: r(1) g) (simp add: LeftPadWord256_5)
  have c: "calls (snd (GetStorage sm addr 7 (snd (GetStorage sm addr 7 worldWithSlot))))
     = [CallGetState storageKey7, CallGetState storageKey7]"
    by (simp add: GetStorage_miss(2) [OF m2] r(2) storageKey7_def calls_fixture)
  have a1: "accountMaps worldWithAccount (accountCache (managers worldWithAccount sm))
      (Address_String addr) = None"
    by (simp add: worldWithAccount_def worldWith_def freshWorld_simps)
  have a2: "accountMaps (snd (GetAccount testLib sm addr worldWithAccount))
     (accountCache (managers (snd (GetAccount testLib sm addr worldWithAccount)) sm))
     (Address_String addr) = None"
    using a1 by simp
  have av: "fst (GetAccount testLib sm addr worldWithAccount) = (Some account123, None)"
    using arg_cong [OF GetAccount_worldWith123, of fst] by (simp add: worldWithAccount_def)
  have ac: "calls (snd (GetAccount testLib sm addr (snd (GetAccount testLib sm addr worldWithAccount))))
     = [CallGetState (Address_String addr), CallGetState (Address_String addr)]"
    by (simp add: GetAccount_miss(2) [OF a2] GetAccount_miss(2) [OF a1] calls_fixture)
  show ?thesis
    using m1 m2 v c a1 a2 av ac by (simp add: storageKey7_def)
qed

section \<open>The latched error\<close>

lemma erredWorld_simps:
  "managers erredWorld sm =
     \<lparr>stub = mockStub, storageCache = 1, accountCache = 0,
      error = Some \<lparr>ErrCode = ErrorCodeGeneric,
                    Exception = Sprintf ''%s\<newline>Stack trace: %s'' [ArgText (Lit ''boom!''), ArgStackTrace]\<rparr>,
      readonly = False\<rparr>"
  "storageMaps erredWorld = (\<lambda>r. Map.empty)"
  "accountMaps erredWorld = (\<lambda>r. Map.empty)"
  "calls erredWorld = []"
  "ledger erredWorld = \<lparr>fakeGetLedger = Map.empty, fakePutLedger = Map.empty\<rparr>"
  by (simp_all add: erredWorld_def PushError_def freshWorld_simps)

text \<open>The error field is write-only for every function but \<^verbatim>\<open>PushError\<close>, \<^verbatim>\<open>Error\<close> and
  \<^verbatim>\<open>Sync\<close>: from two states that differ only in error fields, a call returns the same
  result and leads to two states that again differ only in error fields.\<close>

lemma same_clearError: "same_but_errors w (clearError st w)"
  by (simp add: same_but_errors_def clearError_def)

lemma sim_PushError:
  "same_but_errors w w' \<Longrightarrow> same_but_errors (PushError st err w) (PushError st err' w')"
  by (simp add: same_but_errors_def PushError_def split: option.split)

lemma sim_stub_GetState:
  assumes "same_but_errors w w'"
  shows "fst (stub_GetState s key w') = fst (stub_GetState s key w)"
    and "same_but_errors (snd (stub_GetState s key w)) (snd (stub_GetState s key w'))"
  using assms by (simp_all add: same_but_errors_def stub_GetState_def split_def Let_def)

lemma sim_stub_PutState:
  assumes "same_but_errors w w'"
  shows "fst (stub_PutState s key v w') = fst (stub_PutState s key v w)"
    and "same_but_errors (snd (stub_PutState s key v w)) (snd (stub_PutState s key v w'))"
  using assms by (simp_all add: same_but_errors_def stub_PutState_def split_def Let_def)

lemma sim_stub_DelState:
  assumes "same_but_errors w w'"
  shows "fst (stub_DelState s key w') = fst (stub_DelState s key w)"
    and "same_but_errors (snd (stub_DelState s key w)) (snd (stub_DelState s key w'))"
  using assms by (simp_all add: same_but_errors_def stub_DelState_def split_def Let_def)

lemma sim_GetAccount:
  assumes "same_but_errors w w'"
  shows "fst (GetAccount lb s a w') = fst (GetAccount lb s a w)"
    and "same_but_errors (snd (GetAccount lb s a w)) (snd (GetAccount lb s a w'))"
proof -
  have c: "accountMaps w' (accountCache (managers w' s)) = accountMaps w (accountCache (managers w s))"
    using assms by (simp add: same_but_errors_def)
  note g = sim_stub_GetState [OF assms, of s "Address_String a"]
  show "fst (GetAccount lb s a w') = fst (GetAccount lb s a w)"
    by (auto simp add: GetAccount_def split_def Let_def c g(1) simp del: stub_GetState_frame
          split: option.split)
  show "same_but_errors (snd (GetAccount lb s a w)) (snd (GetAccount lb s a w'))"
    using assms g(2)
    by (auto simp add: GetAccount_def split_def Let_def c g(1) simp del: stub_GetState_frame
          split: option.split)
qed

lemma sim_account:
  assumes "same_but_errors w w'"
  shows "fst (account lb s a w') = fst (account lb s a w)"
    and "same_but_errors (snd (account lb s a w)) (snd (account lb s a w'))"
  using sim_GetAccount [OF assms, of lb s a]
  by (simp_all add: account_def split_def Let_def sim_PushError del: GetAccount_frame)

lemma sim_mustAccount:
  assumes "same_but_errors w w'"
  shows "fst (mustAccount lb s a w') = fst (mustAccount lb s a w)"
    and "same_but_errors (snd (mustAccount lb s a w)) (snd (mustAccount lb s a w'))"
  using sim_account [OF assms, of lb s a]
  by (simp_all add: mustAccount_def split_def Let_def sim_PushError)

lemma sim_Exists:
  assumes "same_but_errors w w'"
  shows "fst (Exists lb s a w') = fst (Exists lb s a w)"
    and "same_but_errors (snd (Exists lb s a w)) (snd (Exists lb s a w'))"
  using sim_GetAccount [OF assms, of lb s a]
  by (simp_all add: Exists_def split_def Let_def sim_PushError del: GetAccount_frame)

lemma sim_cache_upd:
  assumes "same_but_errors w w'"
  shows "same_but_errors (w\<lparr>accountMaps := m\<rparr>) (w'\<lparr>accountMaps := m\<rparr>)"
    and "same_but_errors (w\<lparr>storageMaps := n\<rparr>) (w'\<lparr>storageMaps := n\<rparr>)"
  using assms by (simp_all add: same_but_errors_def)

lemma sim_updateAccount:
  assumes "same_but_errors w w'"
  shows "same_but_errors (updateAccount lb s acc w) (updateAccount lb s acc w')"
proof -
  let ?k = "Address_String (Address acc)"
  let ?bs = "fst (Marshal lb acc)"
  let ?m = "(accountMaps w)(accountCache (managers w s) :=
              (accountMaps w (accountCache (managers w s)))(?k \<mapsto> ?bs))"
  have c: "accountCache (managers w' s) = accountCache (managers w s)"
      "accountMaps w' = accountMaps w"
    using assms by (simp_all add: same_but_errors_def)
  have u: "same_but_errors (w\<lparr>accountMaps := ?m\<rparr>) (w'\<lparr>accountMaps := ?m\<rparr>)"
    by (rule sim_cache_upd [OF assms])
  note p = sim_stub_PutState [OF u, of s ?k ?bs]
  show ?thesis
    using p(2)
    by (simp add: updateAccount_def split_def Let_def c p(1) sim_PushError assms
          del: stub_PutState_frame)
qed

lemma sim_removeAccount:
  assumes "same_but_errors w w'"
  shows "fst (removeAccount s a w') = fst (removeAccount s a w)"
    and "same_but_errors (snd (removeAccount s a w)) (snd (removeAccount s a w'))"
proof -
  let ?k = "Address_String a"
  let ?m = "(accountMaps w)(accountCache (managers w s) :=
              (accountMaps w (accountCache (managers w s)))(?k := None))"
  have c: "accountCache (managers w' s) = accountCache (managers w s)"
      "accountMaps w' = accountMaps w"
    using assms by (simp_all add: same_but_errors_def)
  have u: "same_but_errors (w\<lparr>accountMaps := ?m\<rparr>) (w'\<lparr>accountMaps := ?m\<rparr>)"
    by (rule sim_cache_upd [OF assms])
  note d1 = sim_stub_DelState [OF u, of s ?k]
  note d2 = sim_stub_DelState [OF assms, of s ?k]
  show "fst (removeAccount s a w') = fst (removeAccount s a w)"
    by (simp add: removeAccount_def Let_def c d1(1) d2(1))
  show "same_but_errors (snd (removeAccount s a w)) (snd (removeAccount s a w'))"
    by (simp add: removeAccount_def Let_def c d1(2) d2(2))
qed


lemma sim_CreateAccount:
  assumes "same_but_errors w w'"
  shows "same_but_errors (CreateAccount lb s a w) (CreateAccount lb s a w')"
proof -
  note e = sim_Exists [OF assms, of lb s a]
  note g = sim_GetAccount [OF e(2), of lb s a]
  show ?thesis
    by (simp add: CreateAccount_def split_def Let_def e(1) g(1) sim_PushError [OF g(2)]
          sim_updateAccount [OF e(2)] del: GetAccount_frame Exists_frame)
qed

lemma sim_RemoveAccount:
  assumes "same_but_errors w w'"
  shows "same_but_errors (RemoveAccount lb s a w) (RemoveAccount lb s a w')"
proof -
  note e = sim_Exists [OF assms, of lb s a]
  note r = sim_removeAccount [OF e(2), of s a]
  show ?thesis
    by (simp add: RemoveAccount_def split_def Let_def e(1) r(1) r(2) sim_PushError [OF e(2)]
          sim_PushError [OF r(2)] del: Exists_frame)
qed

lemma sim_SetStorage:
  assumes "same_but_errors w w'"
  shows "same_but_errors (SetStorage s a k v w) (SetStorage s a k v w')"
proof -
  let ?K = "Address_String a @ hex_EncodeToString_Bytes k"
  note p = sim_stub_PutState [OF assms, of s ?K "Word256_Bytes v"]
  have c: "storageCache (managers (snd (stub_PutState s ?K (Word256_Bytes v) w')) s)
         = storageCache (managers (snd (stub_PutState s ?K (Word256_Bytes v) w)) s)"
      "storageMaps (snd (stub_PutState s ?K (Word256_Bytes v) w'))
         = storageMaps (snd (stub_PutState s ?K (Word256_Bytes v) w))"
    using p(2) by (simp_all add: same_but_errors_def del: stub_PutState_frame)
  show ?thesis
    by (simp add: SetStorage_def split_def Let_def p c sim_cache_upd(2) [OF p(2)]
          sim_PushError [OF p(2)] del: stub_PutState_frame)
qed

lemma sim_InitCode:
  assumes "same_but_errors w w'"
  shows "same_but_errors (InitCode lb s a c w) (InitCode lb s a c w')"
  using sim_mustAccount [OF assms, of lb s a]
  by (simp add: InitCode_def split_def Let_def sim_PushError sim_updateAccount
        split: option.split)

lemma sim_AddToBalance:
  assumes "same_but_errors w w'"
  shows "same_but_errors (AddToBalance lb s a n w) (AddToBalance lb s a n w')"
  using sim_mustAccount [OF assms, of lb s a]
  by (simp add: AddToBalance_def split_def Let_def sim_PushError sim_updateAccount
        split: option.split)

lemma sim_SubtractFromBalance:
  assumes "same_but_errors w w'"
  shows "same_but_errors (SubtractFromBalance lb s a n w) (SubtractFromBalance lb s a n w')"
  using sim_mustAccount [OF assms, of lb s a]
  by (simp add: SubtractFromBalance_def split_def Let_def sim_PushError sim_updateAccount
        split: option.split)

lemma sim_SetPermission:
  assumes "same_but_errors w w'"
  shows "same_but_errors (SetPermission lb s a f b w) (SetPermission lb s a f b w')"
  using sim_mustAccount [OF assms, of lb s a]
  by (simp add: SetPermission_def split_def Let_def sim_updateAccount split: option.split)

lemma sim_UnsetPermission:
  assumes "same_but_errors w w'"
  shows "same_but_errors (UnsetPermission lb s a f w) (UnsetPermission lb s a f w')"
  using sim_mustAccount [OF assms, of lb s a]
  by (simp add: UnsetPermission_def split_def Let_def sim_updateAccount split: option.split)

lemma sim_AddRole:
  assumes "same_but_errors w w'"
  shows "same_but_errors (snd (AddRole lb s a r w)) (snd (AddRole lb s a r w'))"
  using sim_mustAccount [OF assms, of lb s a]
  by (simp add: AddRole_def split_def Let_def sim_updateAccount split: option.split)

lemma sim_RemoveRole:
  assumes "same_but_errors w w'"
  shows "same_but_errors (snd (RemoveRole lb s a r w)) (snd (RemoveRole lb s a r w'))"
  using sim_mustAccount [OF assms, of lb s a]
  by (simp add: RemoveRole_def split_def Let_def sim_updateAccount split: option.split)

lemma sim_IncSequence:
  assumes "same_but_errors w w'"
  shows "same_but_errors (IncSequence lb s a w) (IncSequence lb s a w')"
  using sim_mustAccount [OF assms, of lb s a]
  by (simp add: IncSequence_def split_def Let_def sim_updateAccount split: option.split)

lemma sim_GetStorage:
  assumes "same_but_errors w w'"
  shows "same_but_errors (snd (GetStorage s a k w)) (snd (GetStorage s a k w'))"
proof -
  let ?K = "Address_String a @ hex_EncodeToString_Bytes k"
  note g = sim_stub_GetState [OF assms, of s ?K]
  have c: "storageMaps w' (storageCache (managers w' s)) = storageMaps w (storageCache (managers w s))"
    using assms by (simp add: same_but_errors_def)
  show ?thesis
    by (simp add: GetStorage_def split_def Let_def c g assms sim_PushError [OF g(2)]
          del: stub_GetState_frame split: option.split)
qed

lemma sim_GetBalance:
  assumes "same_but_errors w w'"
  shows "same_but_errors (snd (GetBalance lb s a w)) (snd (GetBalance lb s a w'))"
  using sim_account [OF assms, of lb s a]
  by (simp add: GetBalance_def split_def Let_def split: option.split)

lemma sim_GetPermissions:
  assumes "same_but_errors w w'"
  shows "same_but_errors (snd (GetPermissions lb s a w)) (snd (GetPermissions lb s a w'))"
  using sim_account [OF assms, of lb s a]
  by (simp add: GetPermissions_def split_def Let_def split: option.split)

lemma sim_GetCode:
  assumes "same_but_errors w w'"
  shows "same_but_errors (snd (GetCode lb s a w)) (snd (GetCode lb s a w'))"
  using sim_account [OF assms, of lb s a]
  by (simp add: GetCode_def split_def Let_def split: option.split)

lemma sim_GetSequence:
  assumes "same_but_errors w w'"
  shows "same_but_errors (snd (GetSequence lb s a w)) (snd (GetSequence lb s a w'))"
  using sim_account [OF assms, of lb s a]
  by (simp add: GetSequence_def split_def Let_def split: option.split)

lemma sim_invoke:
  assumes "same_but_errors w w'"
  shows "same_but_errors (invoke lb s m w) (invoke lb s m w')"
  using assms
  by (cases m)
     (simp_all add: sim_CreateAccount sim_RemoveAccount sim_InitCode sim_AddToBalance
        sim_SubtractFromBalance sim_SetStorage sim_SetPermission sim_UnsetPermission
        sim_AddRole sim_RemoveRole sim_IncSequence sim_GetStorage sim_GetBalance
        sim_GetPermissions sim_GetCode sim_Exists sim_GetSequence sim_GetAccount
        sim_PushError)




section \<open>Cache views\<close>

lemma NewCache_options:
  "foldl (\<lambda>ns option. if option = ReadOnly then ns\<lparr>readonly := True\<rparr> else ns) ns0 opts
     = ns0\<lparr>readonly := readonly ns0 \<or> ReadOnly \<in> set opts\<rparr>"
  by (induction opts arbitrary: ns0) auto

lemma NewCache_result:
  "NewCache p opts w =
     (nextRef w,
      w\<lparr>managers := (managers w)(nextRef w :=
           \<lparr>stub = stub (managers w p), storageCache = storageCache (managers w p),
            accountCache = accountCache (managers w p), error = None,
            readonly = (ReadOnly \<in> set opts)\<rparr>),
        nextRef := Suc (nextRef w)\<rparr>)"
  by (simp add: NewCache_def Let_def NewCache_options)

lemma invoke_frame:
  "x \<noteq> y \<Longrightarrow> Error y (invoke lb x m w) = Error y w"
  using latch_invoke [of x w lb m] by (simp add: latch_step_def Error_def)

lemma invoke_cache_refs:
  "accountCache (managers (invoke lb x m w) y) = accountCache (managers w y)"
  "storageCache (managers (invoke lb x m w) y) = storageCache (managers w y)"
  using latch_invoke [of x w lb m] by (cases "y = x"; simp add: latch_step_def)+

lemma SetStorage_then_GetStorage_shared:
  assumes "storageCache (managers w p) = storageCache (managers w v)"
    and "fst (PutState (stub (managers w v)) (Address_String a @ hex_EncodeToString_Bytes k)
                  (Word256_Bytes val) (ledger w)) = None"
  shows "GetStorage p a k (SetStorage v a k val w) = (Some val, SetStorage v a k val w)"
  using assms
  by (simp add: SetStorage_def GetStorage_def stub_PutState_def Let_def split_def)

lemma CreateAccount_new_cached:
  assumes "\<not> fst (Exists lb x a w)"
    and "snd (Marshal lb (Account_zero\<lparr>Address := a, Permissions := ContractPerms\<rparr>)) = None"
    and "accountCache (managers w y) = accountCache (managers w x)"
  shows "accountMaps (CreateAccount lb x a w) (accountCache (managers (CreateAccount lb x a w) y))
           (Address_String a)
         = Some (fst (Marshal lb (Account_zero\<lparr>Address := a, Permissions := ContractPerms\<rparr>)))"
proof -
  have c: "CreateAccount lb x a w =
      updateAccount lb x (Account_zero\<lparr>Address := a, Permissions := ContractPerms\<rparr>)
        (snd (Exists lb x a w))"
    using assms(1) by (simp add: CreateAccount_def split_def Let_def)
  have r: "accountCache (managers (CreateAccount lb x a w) y) = accountCache (managers w x)"
    using invoke_cache_refs(1) [of lb x "CallCreateAccount a" w y] by (simp add: assms(3))
  show ?thesis
    by (simp only: r) (simp add: c updateAccount_frame [OF assms(2)])
qed

text \<open>
  Claim C10. Let \<open>p\<close> be an allocated state manager and \<open>v\<close> the result of
  \<^verbatim>\<open>p.NewCache(opts...)\<close>. Then \<open>v\<close> is a new object whose two cache fields hold the same
  references as those of \<open>p\<close> (no map is copied), and no call ever changes a cache reference
  of any state manager; so a slot written through one is read back through the other
  without a call on the stub, and an account created through one is in the account cache
  that the other reads. The error field is not shared: \<open>v\<close> starts with no error whatever
  the error of \<open>p\<close>, \<open>p\<close> keeps its error, and in every later state a call on \<open>v\<close>
  (\<^verbatim>\<open>PushError\<close> included) leaves the error of \<open>p\<close> as it is, and the other way round.
\<close>

theorem NewCache_shares_caches_not_errors:
  assumes "p < nextRef (w :: 'l world)" and "NewCache p opts w = (v, w1)"
  shows "v \<noteq> p \<and> managers w1 p = managers w p \<and>
    accountMaps w1 = accountMaps w \<and> storageMaps w1 = storageMaps w \<and>
    accountCache (managers w1 v) = accountCache (managers w1 p) \<and>
    storageCache (managers w1 v) = storageCache (managers w1 p) \<and>
    (\<forall>lb x m (w2 :: 'l world) y.
        accountCache (managers (invoke lb x m w2) y) = accountCache (managers w2 y) \<and>
        storageCache (managers (invoke lb x m w2) y) = storageCache (managers w2 y)) \<and>
    (\<forall>a k val.
        fst (PutState (stub (managers w p)) (Address_String a @ hex_EncodeToString_Bytes k)
               (Word256_Bytes val) (ledger w)) = None \<longrightarrow>
        GetStorage p a k (SetStorage v a k val w1) = (Some val, SetStorage v a k val w1) \<and>
        GetStorage v a k (SetStorage p a k val w1) = (Some val, SetStorage p a k val w1)) \<and>
    (\<forall>lb a.
        snd (Marshal lb (Account_zero\<lparr>Address := a, Permissions := ContractPerms\<rparr>)) = None \<longrightarrow>
        (\<not> fst (Exists lb v a w1) \<longrightarrow>
           accountMaps (CreateAccount lb v a w1) (accountCache (managers (CreateAccount lb v a w1) p))
               (Address_String a)
             = Some (fst (Marshal lb (Account_zero\<lparr>Address := a, Permissions := ContractPerms\<rparr>)))) \<and>
        (\<not> fst (Exists lb p a w1) \<longrightarrow>
           accountMaps (CreateAccount lb p a w1) (accountCache (managers (CreateAccount lb p a w1) v))
               (Address_String a)
             = Some (fst (Marshal lb (Account_zero\<lparr>Address := a, Permissions := ContractPerms\<rparr>))))) \<and>
    Error v w1 = None \<and> Error p w1 = Error p w \<and>
    (\<forall>lb m (w2 :: 'l world). Error p (invoke lb v m w2) = Error p w2 \<and>
                Error v (invoke lb p m w2) = Error v w2)"
proof -
  have v: "v = nextRef w"
    and w1: "w1 = w\<lparr>managers := (managers w)(nextRef w :=
           \<lparr>stub = stub (managers w p), storageCache = storageCache (managers w p),
            accountCache = accountCache (managers w p), error = None,
            readonly = (ReadOnly \<in> set opts)\<rparr>),
        nextRef := Suc (nextRef w)\<rparr>"
    using assms(2) by (auto simp add: NewCache_result)
  have ne: "v \<noteq> p" "p \<noteq> v"
    using assms(1) by (simp_all add: v)
  have mp: "managers w1 p = managers w p"
    using ne by (simp add: w1 v)
  have mv: "managers w1 v = \<lparr>stub = stub (managers w p), storageCache = storageCache (managers w p),
            accountCache = accountCache (managers w p), error = None,
            readonly = (ReadOnly \<in> set opts)\<rparr>"
    by (simp add: w1 v)
  have l1: "ledger w1 = ledger w"
    by (simp add: w1)
  show ?thesis
  proof (intro conjI allI impI)
    show "v \<noteq> p" by (rule ne)
    show "managers w1 p = managers w p" by (rule mp)
    show "accountMaps w1 = accountMaps w" by (simp add: w1)
    show "storageMaps w1 = storageMaps w" by (simp add: w1)
    show "accountCache (managers w1 v) = accountCache (managers w1 p)" by (simp add: mp mv)
    show "storageCache (managers w1 v) = storageCache (managers w1 p)" by (simp add: mp mv)
    show "Error v w1 = None" by (simp add: Error_def mv)
    show "Error p w1 = Error p w" by (simp add: Error_def mp)
  next
    fix lb :: burrow_lib and x :: ref and m :: operation and w2 :: "'l world" and y :: ref
    show "accountCache (managers (invoke lb x m w2) y) = accountCache (managers w2 y)"
      by (rule invoke_cache_refs)
    show "storageCache (managers (invoke lb x m w2) y) = storageCache (managers w2 y)"
      by (rule invoke_cache_refs)
  next
    fix a k val
    assume put: "fst (PutState (stub (managers w p)) (Address_String a @ hex_EncodeToString_Bytes k)
               (Word256_Bytes val) (ledger w)) = None"
    show "GetStorage p a k (SetStorage v a k val w1) = (Some val, SetStorage v a k val w1)"
      by (rule SetStorage_then_GetStorage_shared) (simp_all add: mp mv l1 put)
    show "GetStorage v a k (SetStorage p a k val w1) = (Some val, SetStorage p a k val w1)"
      by (rule SetStorage_then_GetStorage_shared) (simp_all add: mp mv l1 put)
  next
    fix lb :: burrow_lib and a :: Address
    assume mo: "snd (Marshal lb (Account_zero\<lparr>Address := a, Permissions := ContractPerms\<rparr>)) = None"
      and ex: "\<not> fst (Exists lb v a w1)"
    show "accountMaps (CreateAccount lb v a w1) (accountCache (managers (CreateAccount lb v a w1) p))
               (Address_String a)
             = Some (fst (Marshal lb (Account_zero\<lparr>Address := a, Permissions := ContractPerms\<rparr>)))"
      by (rule CreateAccount_new_cached [OF ex mo]) (simp add: mp mv)
  next
    fix lb :: burrow_lib and a :: Address
    assume mo: "snd (Marshal lb (Account_zero\<lparr>Address := a, Permissions := ContractPerms\<rparr>)) = None"
      and ex: "\<not> fst (Exists lb p a w1)"
    show "accountMaps (CreateAccount lb p a w1) (accountCache (managers (CreateAccount lb p a w1) v))
               (Address_String a)
             = Some (fst (Marshal lb (Account_zero\<lparr>Address := a, Permissions := ContractPerms\<rparr>)))"
      by (rule CreateAccount_new_cached [OF ex mo]) (simp add: mp mv)
  next
    fix lb :: burrow_lib and m :: operation and w2 :: "'l world"
    show "Error p (invoke lb v m w2) = Error p w2"
      by (rule invoke_frame [OF ne(1)])
    show "Error v (invoke lb p m w2) = Error v w2"
      by (rule invoke_frame [OF ne(2)])
  qed
qed

theorem NewCache_shares_caches_not_errors_witness:
  "sm < nextRef (freshWorld Map.empty) \<and>
   NewCache sm [ReadOnly] (freshWorld Map.empty) = (view, viewWorld) \<and>
   view \<noteq> sm \<and>
   fst (GetStorage sm addr 7 (SetStorage view addr 7 11 viewWorld)) = Some 11 \<and>
   fst (GetStorage view addr 7 (SetStorage sm addr 7 11 viewWorld)) = Some 11 \<and>
   accountMaps (CreateAccount testLib view addr viewWorld)
       (accountCache (managers (CreateAccount testLib view addr viewWorld) sm)) (Address_String addr)
     = Some [1, 0, 0] \<and>
   Error sm (invoke testLib view (CallPushError (Some (ErrorString ''boom!''))) viewWorld)
     = Error sm viewWorld \<and>
   Error view (invoke testLib sm (CallPushError (Some (ErrorString ''boom!''))) viewWorld)
     = Error view viewWorld"
proof -
  have h1: "sm < nextRef (freshWorld Map.empty)"
    by (simp add: freshWorld_simps sm_eq)
  have h2: "NewCache sm [ReadOnly] (freshWorld Map.empty) = (view, viewWorld)"
    by (simp add: view_def viewWorld_def)
  note t = NewCache_shares_caches_not_errors [OF h1 h2]
  have put: "fst (PutState (stub (managers (freshWorld Map.empty) sm))
               (Address_String addr @ hex_EncodeToString_Bytes 7)
               (Word256_Bytes 11) (ledger (freshWorld Map.empty))) = None"
    by (simp add: freshWorld_simps mockStub_def)
  have m: "Marshal testLib (Account_zero\<lparr>Address := addr, Permissions := ContractPerms\<rparr>)
      = ([1, 0, 0], None)"
    by (simp add: testLib_def testMarshal_def Account_zero_def)
  have mo: "snd (Marshal testLib (Account_zero\<lparr>Address := addr, Permissions := ContractPerms\<rparr>)) = None"
    by (simp add: m)
  have vw: "managers viewWorld view =
      \<lparr>stub = mockStub, storageCache = 1, accountCache = 0, error = None, readonly = True\<rparr>"
    "accountMaps viewWorld = (\<lambda>r. Map.empty)"
    "ledger viewWorld = \<lparr>fakeGetLedger = Map.empty, fakePutLedger = Map.empty\<rparr>"
    by (simp_all add: viewWorld_def view_def NewCache_result freshWorld_simps)
  have ex: "\<not> fst (Exists testLib view addr viewWorld)"
    by (simp add: Exists_iff GetAccount_def stub_GetState_def Let_def vw mockStub_def)
  have s: "GetStorage sm addr 7 (SetStorage view addr 7 11 viewWorld)
             = (Some 11, SetStorage view addr 7 11 viewWorld) \<and>
           GetStorage view addr 7 (SetStorage sm addr 7 11 viewWorld)
             = (Some 11, SetStorage sm addr 7 11 viewWorld)"
    using t put by blast
  have c: "accountMaps (CreateAccount testLib view addr viewWorld)
       (accountCache (managers (CreateAccount testLib view addr viewWorld) sm)) (Address_String addr)
     = Some (fst (Marshal testLib (Account_zero\<lparr>Address := addr, Permissions := ContractPerms\<rparr>)))"
    using t mo ex by blast
  have e: "Error sm (invoke testLib view (CallPushError (Some (ErrorString ''boom!''))) viewWorld)
             = Error sm viewWorld \<and>
           Error view (invoke testLib sm (CallPushError (Some (ErrorString ''boom!''))) viewWorld)
             = Error view viewWorld"
    using t by blast
  have n: "view \<noteq> sm"
    using t by blast
  show ?thesis
    using h1 h2 n s c e by (simp add: m)
qed

end
